theory Spec2Isabelle
  imports Complex_Main "HOL-Library.Sublist" "HOL-Library.AList"
begin

section \<open>Python values and sequences\<close>

text \<open>
  The program is Python. Values of type \<open>Any\<close> that flow through entities, tool
  parameters and keyword arguments are modelled by \<open>pyval\<close>. A Python float is
  either a finite dyadic rational (hence a rational number, compared exactly as Python
  compares floats and ints) or one of the three special values.
\<close>

datatype pyfloat = Fin rat | PInf | NInf | NaN

datatype pyval =
    PyNone
  | PyBool bool
  | PyInt int
  | PyFloat pyfloat
  | PyStr string
  | PyList "pyval list"
  | PyDict "(string \<times> pyval) list"

subsection \<open>Exceptions\<close>

text \<open>
  Exceptions are values. \<open>py_error\<close> stands for what the modelled code can see raised:
  the exceptions it raises itself, those of the library functions it calls, and whatever
  the code of a tool raises. \<open>SystemExit\<close> and \<open>KeyboardInterrupt\<close> derive from
  \<open>BaseException\<close> and not from \<open>Exception\<close>, so a handler \<open>except Exception\<close> does
  not catch them. \<open>Unprintable e\<close> is an instance of \<open>Exception\<close> whose \<open>__str__\<close>
  raises \<open>e\<close>: a handler that puts \<open>str(e)\<close> or \<open>{e}\<close> into a message raises in
  its turn.
\<close>

datatype py_error =
    ReError string
  | ValueError string
  | ImportError string
  | FileNotFoundError string
  | OSError string
  | ToolRaised string
  | Unprintable py_error
  | SystemExit
  | KeyboardInterrupt

text \<open>\<open>isinstance(e, Exception)\<close>.\<close>

fun is_exception :: "py_error \<Rightarrow> bool" where
  "is_exception SystemExit = False"
| "is_exception KeyboardInterrupt = False"
| "is_exception e = True"

text \<open>What \<open>str(e)\<close> raises, if it raises.\<close>

fun str_raises :: "py_error \<Rightarrow> py_error option" where
  "str_raises (Unprintable e) = Some e"
| "str_raises e = None"


text \<open>
  A handler \<open>except Exception as e\<close> that logs a message with \<open>e\<close> in it and raises
  \<open>e\<close> again: the exception that leaves it. An exception that is not caught leaves as it
  is.
\<close>

definition log_and_reraise :: "py_error \<Rightarrow> py_error" where
  "log_and_reraise e =
     (if is_exception e then (case str_raises e of Some e' \<Rightarrow> e' | None \<Rightarrow> e) else e)"

text \<open>
  The slice \<open>xs[i:]\<close>: a negative start counts from the end and is clamped at the
  beginning of the list, a start past the end gives the empty list.
\<close>

definition py_slice_from :: "'a list \<Rightarrow> int \<Rightarrow> 'a list" where
  "py_slice_from xs i =
     (let n = int (length xs);
          j = (if i < 0 then max 0 (n + i) else min i n)
      in drop (nat j) xs)"

subsection \<open>Strings\<close>

text \<open>
  A Python \<open>str\<close> is a sequence of code points; the model's strings hold the code
  points below 256 (Latin-1), one per \<open>char\<close>. The character predicates and case
  mappings below are those of Python on that range: \<open>str.lower\<close>, \<open>str.isspace\<close>,
  and the categories \<open>\d\<close>, \<open>\s\<close>, \<open>\w\<close> of the \<open>re\<close> module for \<open>str\<close> patterns.
\<close>

abbreviation bs :: char where "bs \<equiv> CHR 0x5C"
abbreviation dq :: char where "dq \<equiv> CHR 0x22"

definition ord :: "char \<Rightarrow> nat" where
  "ord c = of_char c"

definition py_lower_char :: "char \<Rightarrow> char" where
  "py_lower_char c =
     (let n = ord c
      in if (65 \<le> n \<and> n \<le> 90) \<or> (192 \<le> n \<and> n \<le> 222 \<and> n \<noteq> 215)
         then char_of (n + 32) else c)"

definition py_upper_char :: "char \<Rightarrow> char" where
  "py_upper_char c =
     (let n = ord c
      in if (97 \<le> n \<and> n \<le> 122) \<or> (224 \<le> n \<and> n \<le> 254 \<and> n \<noteq> 247)
         then char_of (n - 32) else c)"

definition py_isspace :: "char \<Rightarrow> bool" where
  "py_isspace c = (ord c \<in> {9, 10, 11, 12, 13, 28, 29, 30, 31, 32, 133, 160})"

definition py_isdecimal :: "char \<Rightarrow> bool" where
  "py_isdecimal c = (48 \<le> ord c \<and> ord c \<le> 57)"

definition py_isword :: "char \<Rightarrow> bool" where
  "py_isword c =
     (let n = ord c
      in (48 \<le> n \<and> n \<le> 57) \<or> (65 \<le> n \<and> n \<le> 90) \<or> (97 \<le> n \<and> n \<le> 122) \<or> n = 95
         \<or> n \<in> {170, 178, 179, 181, 185, 186, 188, 189, 190}
         \<or> (192 \<le> n \<and> n \<noteq> 215 \<and> n \<noteq> 247))"

definition py_lower :: "string \<Rightarrow> string" where
  "py_lower s = map py_lower_char s"

definition py_strip :: "string \<Rightarrow> string" where
  "py_strip s = rev (dropWhile py_isspace (rev (dropWhile py_isspace s)))"

text \<open>\<open>sub in s\<close> for strings: \<open>sub\<close> occurs in \<open>s\<close> as a contiguous run.\<close>

fun py_in :: "string \<Rightarrow> string \<Rightarrow> bool" where
  "py_in sub [] = (sub = [])"
| "py_in sub (c # cs) = (prefix sub (c # cs) \<or> py_in sub cs)"

text \<open>
  \<open>s.replace(old, new)\<close>: every non-overlapping occurrence, leftmost first. The
  counter bounds the recursion by the length of the string, which always suffices.
\<close>

fun replace_fuel :: "nat \<Rightarrow> string \<Rightarrow> string \<Rightarrow> string \<Rightarrow> string" where
  "replace_fuel 0 old new s = s"
| "replace_fuel (Suc n) old new s =
     (if s = [] then []
      else if prefix old s then new @ replace_fuel n old new (drop (length old) s)
      else hd s # replace_fuel n old new (tl s))"

definition py_replace :: "string \<Rightarrow> string \<Rightarrow> string \<Rightarrow> string" where
  "py_replace s old new =
     (if old = [] then new @ concat (map (\<lambda>c. c # new) s)
      else replace_fuel (length s) old new s)"

section \<open>Python's \<open>re\<close> module\<close>

text \<open>
  The program matches commands with regular expressions given as strings. The fragment of
  the pattern syntax modelled here covers every pattern of the source: literals, \<open>.\<close>,
  character classes with ranges, negation and the escapes \<open>\d \s \w\<close> (and their
  complements), the assertions \<open>^ $ \b \B\<close>, capturing and non-capturing groups,
  alternation, and the greedy and lazy repetitions \<open>* + ? {m,n}\<close>. Matching is
  Python's backtracking search: \<open>ms r ic s st\<close> lists, in the order in which the
  backtracking matcher would try them, the states reachable from \<open>st\<close> (a position
  in \<open>s\<close> and the spans captured so far, most recent first); the first element is the
  match Python reports. The flag \<open>ic\<close> is \<open>re.IGNORECASE\<close>.
  For a pattern outside the fragment, malformed or not, \<open>re_compile\<close> gives \<open>None\<close>
  and the model says nothing of what Python does with it: the functions that use a
  pattern take the library's answer for such a pattern as a parameter. An iteration of a repetition that
  consumes nothing ends the repetition, and \<open>findall\<close> resumes one position after an empty
  match.
\<close>

datatype cclass_item =
    CChar char | CRange char char
  | CDigit | CNotDigit | CSpace | CNotSpace | CWord | CNotWord

datatype regex =
    Lit char
  | AnyChar
  | CharSet bool "cclass_item list"
  | Bol | Eol | WordB | NotWordB
  | Empty
  | Seq regex regex
  | Alt regex regex
  | Repeat regex nat "nat option" bool
  | Group nat regex

definition in_range :: "char \<Rightarrow> char \<Rightarrow> char \<Rightarrow> bool" where
  "in_range a b c = (ord a \<le> ord c \<and> ord c \<le> ord b)"

fun item_matches :: "bool \<Rightarrow> cclass_item \<Rightarrow> char \<Rightarrow> bool" where
  "item_matches ic (CChar d) c = (if ic then py_lower_char c = py_lower_char d else c = d)"
| "item_matches ic (CRange a b) c =
     (if ic then in_range a b (py_lower_char c) \<or> in_range a b (py_upper_char (py_lower_char c))
      else in_range a b c)"
| "item_matches ic CDigit c = py_isdecimal c"
| "item_matches ic CNotDigit c = (\<not> py_isdecimal c)"
| "item_matches ic CSpace c = py_isspace c"
| "item_matches ic CNotSpace c = (\<not> py_isspace c)"
| "item_matches ic CWord c = py_isword c"
| "item_matches ic CNotWord c = (\<not> py_isword c)"

definition set_matches :: "bool \<Rightarrow> bool \<Rightarrow> cclass_item list \<Rightarrow> char \<Rightarrow> bool" where
  "set_matches ic neg items c = (list_ex (\<lambda>it. item_matches ic it c) items \<noteq> neg)"

definition at_word_boundary :: "string \<Rightarrow> nat \<Rightarrow> bool" where
  "at_word_boundary s i =
     ((0 < i \<and> i \<le> length s \<and> py_isword (s ! (i - 1))) \<noteq> (i < length s \<and> py_isword (s ! i)))"

type_synonym mstate = "nat \<times> (nat \<times> nat \<times> nat) list"

fun rep :: "(mstate \<Rightarrow> mstate list) \<Rightarrow> nat \<Rightarrow> nat \<Rightarrow> nat option \<Rightarrow> bool \<Rightarrow> mstate \<Rightarrow> mstate list" where
  "rep f 0 lo hi greedy st = (if lo = 0 then [st] else [])"
| "rep f (Suc n) lo hi greedy st =
     (if hi = Some 0 then (if lo = 0 then [st] else [])
      else
        let more = concat (map (\<lambda>st'. if lo = 0 \<and> fst st' \<le> fst st then []
                                       else rep f n (lo - 1) (map_option (\<lambda>h. h - 1) hi) greedy st')
                               (f st))
        in if 0 < lo then more else if greedy then more @ [st] else st # more)"

primrec ms :: "regex \<Rightarrow> bool \<Rightarrow> string \<Rightarrow> mstate \<Rightarrow> mstate list" where
  "ms (Lit d) ic s st =
     (if fst st < length s \<and> item_matches ic (CChar d) (s ! fst st) then [(Suc (fst st), snd st)] else [])"
| "ms AnyChar ic s st =
     (if fst st < length s \<and> s ! fst st \<noteq> CHR 0x0A then [(Suc (fst st), snd st)] else [])"
| "ms (CharSet neg items) ic s st =
     (if fst st < length s \<and> set_matches ic neg items (s ! fst st) then [(Suc (fst st), snd st)] else [])"
| "ms Bol ic s st = (if fst st = 0 then [st] else [])"
| "ms Eol ic s st =
     (if fst st = length s \<or> (Suc (fst st) = length s \<and> s ! fst st = CHR 0x0A) then [st] else [])"
| "ms WordB ic s st = (if at_word_boundary s (fst st) then [st] else [])"
| "ms NotWordB ic s st = (if at_word_boundary s (fst st) then [] else [st])"
| "ms Empty ic s st = [st]"
| "ms (Seq a b) ic s st = concat (map (ms b ic s) (ms a ic s st))"
| "ms (Alt a b) ic s st = ms a ic s st @ ms b ic s st"
| "ms (Repeat r lo hi greedy) ic s st = rep (ms r ic s) (lo + length s + 1) lo hi greedy st"
| "ms (Group k r) ic s st = map (\<lambda>st'. (fst st', (k, fst st, fst st') # snd st')) (ms r ic s st)"

record re_match =
  m_start :: nat
  m_end :: nat
  m_groups :: "string option list"

definition substr :: "string \<Rightarrow> nat \<Rightarrow> nat \<Rightarrow> string" where
  "substr s i j = take (j - i) (drop i s)"

definition group_text :: "string \<Rightarrow> (nat \<times> nat \<times> nat) list \<Rightarrow> nat \<Rightarrow> string option" where
  "group_text s caps k =
     (case map_of caps k of None \<Rightarrow> None | Some (i, j) \<Rightarrow> Some (substr s i j))"

definition match_at :: "regex \<times> nat \<Rightarrow> bool \<Rightarrow> string \<Rightarrow> nat \<Rightarrow> re_match option" where
  "match_at rx ic s i =
     (case ms (fst rx) ic s (i, []) of
        [] \<Rightarrow> None
      | st # _ \<Rightarrow> Some \<lparr>m_start = i, m_end = fst st,
                         m_groups = map (group_text s (snd st)) [1..<Suc (snd rx)]\<rparr>)"

fun scan :: "regex \<times> nat \<Rightarrow> bool \<Rightarrow> string \<Rightarrow> nat \<Rightarrow> nat \<Rightarrow> re_match option" where
  "scan rx ic s i 0 = None"
| "scan rx ic s i (Suc n) =
     (case match_at rx ic s i of Some m \<Rightarrow> Some m | None \<Rightarrow> scan rx ic s (Suc i) n)"

definition search_compiled :: "regex \<times> nat \<Rightarrow> bool \<Rightarrow> string \<Rightarrow> re_match option" where
  "search_compiled rx ic s = scan rx ic s 0 (Suc (length s))"

fun findall_fuel :: "nat \<Rightarrow> regex \<times> nat \<Rightarrow> bool \<Rightarrow> string \<Rightarrow> nat \<Rightarrow> string list" where
  "findall_fuel 0 rx ic s i = []"
| "findall_fuel (Suc n) rx ic s i =
     (case scan rx ic s i (Suc (length s) - i) of
        None \<Rightarrow> []
      | Some m \<Rightarrow>
          (case m_groups m of
             [] \<Rightarrow> substr s (m_start m) (m_end m)
           | g # _ \<Rightarrow> (case g of None \<Rightarrow> [] | Some t \<Rightarrow> t))
          # findall_fuel n rx ic s (if m_end m = m_start m then Suc (m_end m) else m_end m))"

definition findall_compiled :: "regex \<times> nat \<Rightarrow> bool \<Rightarrow> string \<Rightarrow> string list" where
  "findall_compiled rx ic s = findall_fuel (Suc (length s)) rx ic s 0"

subsection \<open>Pattern syntax\<close>

definition nat_of_digits :: "string \<Rightarrow> nat" where
  "nat_of_digits ds = foldl (\<lambda>a c. 10 * a + (ord c - 48)) 0 ds"

definition is_ascii_digit :: "char \<Rightarrow> bool" where
  "is_ascii_digit c = (48 \<le> ord c \<and> ord c \<le> 57)"

definition is_ascii_alnum :: "char \<Rightarrow> bool" where
  "is_ascii_alnum c =
     (is_ascii_digit c \<or> (65 \<le> ord c \<and> ord c \<le> 90) \<or> (97 \<le> ord c \<and> ord c \<le> 122))"

text \<open>A counted repetition \<open>{m}\<close>, \<open>{m,}\<close>, \<open>{,n}\<close>, \<open>{m,n}\<close>, read after the brace.\<close>

definition p_braces :: "string \<Rightarrow> ((nat \<times> nat option) option \<times> string) option" where
  "p_braces s =
     (let lo = takeWhile is_ascii_digit s; s1 = dropWhile is_ascii_digit s
      in case s1 of
           c # s2 \<Rightarrow>
             if c = CHR ''}'' then
               (if lo = [] then None
                else Some (Some (nat_of_digits lo, Some (nat_of_digits lo)), s2))
             else if c = CHR '','' then
               (let hi = takeWhile is_ascii_digit s2; s3 = dropWhile is_ascii_digit s2
                in case s3 of
                     d # s4 \<Rightarrow>
                       if d = CHR ''}'' then
                         (if hi = [] then Some (Some (nat_of_digits lo, None), s4)
                          else if nat_of_digits hi < nat_of_digits lo then Some (None, s4)
                          else Some (Some (nat_of_digits lo, Some (nat_of_digits hi)), s4))
                       else None
                   | [] \<Rightarrow> None)
             else None
         | [] \<Rightarrow> None)"

text \<open>
  The quantifier at the head of a string, if there is one: \<open>None\<close> when the string
  does not start with a quantifier, \<open>Some None\<close> when it starts with a malformed one
  (a range with its bounds in the wrong order).
\<close>

definition p_quant :: "string \<Rightarrow> ((nat \<times> nat option) option \<times> string) option" where
  "p_quant s =
     (case s of
        [] \<Rightarrow> None
      | c # s1 \<Rightarrow>
          if c = CHR ''*'' then Some (Some (0, None), s1)
          else if c = CHR ''+'' then Some (Some (1, None), s1)
          else if c = CHR ''?'' then Some (Some (0, Some 1), s1)
          else if c = CHR ''{'' then p_braces s1
          else None)"

definition escape_item :: "char \<Rightarrow> cclass_item option" where
  "escape_item c =
     (if c = CHR ''d'' then Some CDigit else if c = CHR ''D'' then Some CNotDigit
      else if c = CHR ''s'' then Some CSpace else if c = CHR ''S'' then Some CNotSpace
      else if c = CHR ''w'' then Some CWord else if c = CHR ''W'' then Some CNotWord
      else if c = CHR ''n'' then Some (CChar (CHR 0x0A))
      else if c = CHR ''t'' then Some (CChar (CHR 0x09))
      else if c = CHR ''r'' then Some (CChar (CHR 0x0D))
      else if c = CHR ''f'' then Some (CChar (CHR 0x0C))
      else if c = CHR ''v'' then Some (CChar (CHR 0x0B))
      else if c = CHR ''a'' then Some (CChar (CHR 0x07))
      else if is_ascii_alnum c then None
      else Some (CChar c))"

text \<open>One member of a character class: a character, or an escape.\<close>

definition p_class_atom :: "string \<Rightarrow> (cclass_item \<times> string) option" where
  "p_class_atom s =
     (case s of
        [] \<Rightarrow> None
      | c # s1 \<Rightarrow>
          if c = bs then
            (case s1 of
               [] \<Rightarrow> None
             | e # s2 \<Rightarrow>
                 if e = CHR ''b'' then Some (CChar (CHR 0x08), s2)
                 else (case escape_item e of None \<Rightarrow> None | Some it \<Rightarrow> Some (it, s2)))
          else Some (CChar c, s1))"

fun p_class_items :: "nat \<Rightarrow> bool \<Rightarrow> string \<Rightarrow> (cclass_item list \<times> string) option" where
  "p_class_items 0 first s = None"
| "p_class_items (Suc n) first s =
     (case s of
        [] \<Rightarrow> None
      | c # s1 \<Rightarrow>
          if c = CHR '']'' \<and> \<not> first then Some ([], s1)
          else
            (case p_class_atom s of
               None \<Rightarrow> None
             | Some (it, s2) \<Rightarrow>
                 (case s2 of
                    d # e # s3 \<Rightarrow>
                      if d = CHR ''-'' \<and> e \<noteq> CHR '']'' then
                        (case (it, p_class_atom (e # s3)) of
                           (CChar a, Some (CChar b, s4)) \<Rightarrow>
                             if ord b < ord a then None
                             else (case p_class_items n False s4 of
                                     None \<Rightarrow> None
                                   | Some (its, s5) \<Rightarrow> Some (CRange a b # its, s5))
                         | _ \<Rightarrow> None)
                      else (case p_class_items n False s2 of
                              None \<Rightarrow> None
                            | Some (its, s5) \<Rightarrow> Some (it # its, s5))
                  | _ \<Rightarrow> (case p_class_items n False s2 of
                            None \<Rightarrow> None
                          | Some (its, s5) \<Rightarrow> Some (it # its, s5)))))"

definition p_class :: "string \<Rightarrow> (regex \<times> string) option" where
  "p_class s =
     (case s of
        c # s1 \<Rightarrow>
          if c = CHR ''^'' then
            (case p_class_items (Suc (length s1)) True s1 of
               None \<Rightarrow> None | Some (its, s2) \<Rightarrow> Some (CharSet True its, s2))
          else
            (case p_class_items (Suc (length s)) True s of
               None \<Rightarrow> None | Some (its, s2) \<Rightarrow> Some (CharSet False its, s2))
      | [] \<Rightarrow> None)"

definition p_escape :: "char \<Rightarrow> regex option" where
  "p_escape e =
     (if e = CHR ''b'' then Some WordB
      else if e = CHR ''B'' then Some NotWordB
      else (case escape_item e of
              None \<Rightarrow> None
            | Some (CChar c) \<Rightarrow> Some (Lit c)
            | Some it \<Rightarrow> Some (CharSet False [it])))"

definition is_assertion :: "regex \<Rightarrow> bool" where
  "is_assertion r = (r = Bol \<or> r = Eol \<or> r = WordB \<or> r = NotWordB)"

text \<open>
  The quantifier after an item. An assertion cannot be repeated, a repetition cannot be
  repeated again, a trailing \<open>?\<close> makes the repetition lazy.
\<close>

definition p_postfix :: "regex \<Rightarrow> string \<Rightarrow> (regex \<times> string) option" where
  "p_postfix a s =
     (case p_quant s of
        None \<Rightarrow> Some (a, s)
      | Some (None, _) \<Rightarrow> None
      | Some (Some (lo, hi), s1) \<Rightarrow>
          if is_assertion a then None
          else
            (let lazy = (s1 \<noteq> [] \<and> hd s1 = CHR ''?'');
                 s2 = (if lazy then tl s1 else s1)
             in case p_quant s2 of
                  Some _ \<Rightarrow> None
                | None \<Rightarrow> Some (Repeat a lo hi (\<not> lazy), s2)))"

fun p_alt :: "nat \<Rightarrow> string \<Rightarrow> nat \<Rightarrow> (regex \<times> string \<times> nat) option"
and p_seq :: "nat \<Rightarrow> string \<Rightarrow> nat \<Rightarrow> (regex \<times> string \<times> nat) option"
and p_atom :: "nat \<Rightarrow> string \<Rightarrow> nat \<Rightarrow> (regex \<times> string \<times> nat) option" where
  "p_alt 0 s g = None"
| "p_alt (Suc n) s g =
     (case p_seq n s g of
        None \<Rightarrow> None
      | Some (r, s1, g1) \<Rightarrow>
          if s1 \<noteq> [] \<and> hd s1 = CHR ''|'' then
            (case p_alt n (tl s1) g1 of
               None \<Rightarrow> None
             | Some (r2, s2, g2) \<Rightarrow> Some (Alt r r2, s2, g2))
          else Some (r, s1, g1))"
| "p_seq 0 s g = None"
| "p_seq (Suc n) s g =
     (if s = [] \<or> hd s = CHR ''|'' \<or> hd s = CHR '')'' then Some (Empty, s, g)
      else
        (case p_atom n s g of
           None \<Rightarrow> None
         | Some (a, s1, g1) \<Rightarrow>
             (case p_postfix a s1 of
                None \<Rightarrow> None
              | Some (aq, s2) \<Rightarrow>
                  (case p_seq n s2 g1 of
                     None \<Rightarrow> None
                   | Some (r, s3, g3) \<Rightarrow> Some (Seq aq r, s3, g3)))))"
| "p_atom 0 s g = None"
| "p_atom (Suc n) s g =
     (case s of
        [] \<Rightarrow> None
      | c # s1 \<Rightarrow>
          if c = CHR ''('' then
            (if take 2 s1 = ''?:'' then
               (case p_alt n (drop 2 s1) g of
                  None \<Rightarrow> None
                | Some (r, s2, g2) \<Rightarrow>
                    if s2 \<noteq> [] \<and> hd s2 = CHR '')'' then Some (r, tl s2, g2) else None)
             else if take 1 s1 = ''?'' then None
             else
               (case p_alt n s1 (Suc g) of
                  None \<Rightarrow> None
                | Some (r, s2, g2) \<Rightarrow>
                    if s2 \<noteq> [] \<and> hd s2 = CHR '')'' then Some (Group g r, tl s2, g2) else None))
          else if c = CHR ''['' then
            (case p_class s1 of None \<Rightarrow> None | Some (r, s2) \<Rightarrow> Some (r, s2, g))
          else if c = bs then
            (case s1 of
               [] \<Rightarrow> None
             | e # s2 \<Rightarrow> (case p_escape e of None \<Rightarrow> None | Some r \<Rightarrow> Some (r, s2, g)))
          else if c = CHR ''.'' then Some (AnyChar, s1, g)
          else if c = CHR ''^'' then Some (Bol, s1, g)
          else if c = CHR ''$'' then Some (Eol, s1, g)
          else if p_quant s \<noteq> None then None
          else Some (Lit c, s1, g))"

text \<open>
  \<open>re.compile\<close> on the fragment: the pattern's syntax tree and its number of groups;
  \<open>None\<close> for a pattern outside the fragment. \<open>re_search\<close>, \<open>re_match_start\<close>
  (\<open>re.match\<close>) and \<open>re_findall\<close> give \<open>None\<close> with it.
\<close>

definition re_compile :: "string \<Rightarrow> (regex \<times> nat) option" where
  "re_compile p =
     (case p_alt (4 * length p + 4) p 1 of
        Some (r, [], g) \<Rightarrow> Some (r, g - 1)
      | _ \<Rightarrow> None)"

definition re_search :: "string \<Rightarrow> string \<Rightarrow> bool \<Rightarrow> re_match option option" where
  "re_search p s ic = map_option (\<lambda>rx. search_compiled rx ic s) (re_compile p)"

definition re_match_start :: "string \<Rightarrow> string \<Rightarrow> bool \<Rightarrow> re_match option option" where
  "re_match_start p s ic = map_option (\<lambda>rx. match_at rx ic s 0) (re_compile p)"

definition re_findall :: "string \<Rightarrow> string \<Rightarrow> bool \<Rightarrow> string list option" where
  "re_findall p s ic = map_option (\<lambda>rx. findall_compiled rx ic s) (re_compile p)"

section \<open>tools/base\_tool.py\<close>

datatype ToolCategory =
    FILE_OPERATIONS | SYSTEM_CONTROL | MEDIA_PROCESSING | WEB_AUTOMATION | DEVELOPMENT
  | COMMUNICATION | PRODUCTIVITY | ENTERTAINMENT | UTILITIES | CUSTOM

datatype ParameterType =
    STRING | INTEGER | FLOAT | BOOLEAN | PATH | URL | EMAIL | LIST | DICT | FILE | DIRECTORY

text \<open>\<open>Union[int, float]\<close>, the type of a parameter's bounds.\<close>

datatype pynum = NInt int | NFloat pyfloat

subsection \<open>Comparing Python values\<close>

fun float_lt :: "pyfloat \<Rightarrow> pyfloat \<Rightarrow> bool" where
  "float_lt NaN _ = False"
| "float_lt _ NaN = False"
| "float_lt (Fin a) (Fin b) = (a < b)"
| "float_lt NInf (Fin _) = True"
| "float_lt NInf PInf = True"
| "float_lt (Fin _) PInf = True"
| "float_lt _ _ = False"

fun float_eq :: "pyfloat \<Rightarrow> pyfloat \<Rightarrow> bool" where
  "float_eq NaN _ = False"
| "float_eq _ NaN = False"
| "float_eq a b = (a = b)"

text \<open>The numeric value of a \<open>bool\<close>, \<open>int\<close> or \<open>float\<close> (a \<open>bool\<close> is an \<open>int\<close>).\<close>

fun num_value :: "pyval \<Rightarrow> pyfloat option" where
  "num_value (PyBool b) = Some (Fin (if b then 1 else 0))"
| "num_value (PyInt i) = Some (Fin (of_int i))"
| "num_value (PyFloat f) = Some f"
| "num_value _ = None"

fun pynum_value :: "pynum \<Rightarrow> pyfloat" where
  "pynum_value (NInt i) = Fin (of_int i)"
| "pynum_value (NFloat f) = f"

text \<open>
  \<open>a == b\<close> on the modelled values: numbers compare by value across \<open>bool\<close>, \<open>int\<close>
  and \<open>float\<close>, lists elementwise, dictionaries by their items whatever the order of
  insertion. Where Python compares the items of a container (\<open>x in xs\<close>, and \<open>==\<close> on
  lists and dictionaries) it accepts two items that are the same object before it asks
  for their equality. Whether two values met in a comparison are the same object is not a
  function of the values: it is the parameter \<open>same\<close>. It makes a difference only for a
  value that is not equal to itself (\<open>NaN\<close>).
\<close>

fun py_eq :: "(pyval \<Rightarrow> pyval \<Rightarrow> bool) \<Rightarrow> pyval \<Rightarrow> pyval \<Rightarrow> bool"
and py_eq_list :: "(pyval \<Rightarrow> pyval \<Rightarrow> bool) \<Rightarrow> pyval list \<Rightarrow> pyval list \<Rightarrow> bool"
and py_sub_dict ::
  "(pyval \<Rightarrow> pyval \<Rightarrow> bool) \<Rightarrow> (string \<times> pyval) list \<Rightarrow> (string \<times> pyval) list \<Rightarrow> bool" where
  "py_eq same PyNone b = (b = PyNone)"
| "py_eq same (PyStr a) b = (b = PyStr a)"
| "py_eq same (PyList xs) b = (case b of PyList ys \<Rightarrow> py_eq_list same xs ys | _ \<Rightarrow> False)"
| "py_eq same (PyDict d) b =
     (case b of PyDict e \<Rightarrow> length d = length e \<and> py_sub_dict same d e | _ \<Rightarrow> False)"
| "py_eq same (PyBool x) b =
     (case num_value b of Some y \<Rightarrow> float_eq (Fin (if x then 1 else 0)) y | None \<Rightarrow> False)"
| "py_eq same (PyInt x) b =
     (case num_value b of Some y \<Rightarrow> float_eq (Fin (of_int x)) y | None \<Rightarrow> False)"
| "py_eq same (PyFloat x) b =
     (case num_value b of Some y \<Rightarrow> float_eq x y | None \<Rightarrow> False)"
| "py_eq_list same [] ys = (ys = [])"
| "py_eq_list same (x # xs) ys =
     (case ys of
        [] \<Rightarrow> False
      | y # ys' \<Rightarrow> (same x y \<or> py_eq same x y) \<and> py_eq_list same xs ys')"
| "py_sub_dict same [] e = True"
| "py_sub_dict same (kv # d) e =
     ((case map_of e (fst kv) of
         None \<Rightarrow> False
       | Some w \<Rightarrow> same (snd kv) w \<or> py_eq same (snd kv) w)
      \<and> py_sub_dict same d e)"

text \<open>\<open>v in xs\<close>: \<open>any(v is x or v == x for x in xs)\<close>.\<close>

definition py_in_list :: "(pyval \<Rightarrow> pyval \<Rightarrow> bool) \<Rightarrow> pyval \<Rightarrow> pyval list \<Rightarrow> bool" where
  "py_in_list same v xs = list_ex (\<lambda>x. same v x \<or> py_eq same v x) xs"

subsection \<open>ToolParameter\<close>

record ToolParameter =
  param_name :: string
  param_type :: ParameterType
  param_description :: string
  required :: bool
  param_default :: pyval
  choices :: "pyval list option"
  min_value :: "pynum option"
  max_value :: "pynum option"
  param_pattern :: "string option"

text \<open>The messages of \<open>validate\<close> and \<open>validate_parameters\<close>, one constructor per f-string.\<close>

datatype validation_error =
    IsRequired string
  | MustBeString string
  | MustBeInteger string
  | MustBeNumber string
  | MustBeBoolean string
  | MustBeList string
  | MustBeDictionary string
  | MustBeAtLeast string pynum
  | MustBeAtMost string pynum
  | MustBeOneOf string "pyval list"
  | PatternMismatch string
  | FileNotFound string
  | DirectoryNotFound string
  | InvalidURL string
  | InvalidEmail string
  | UnexpectedParameters "string set"

text \<open>
  What \<open>validate\<close> reads from outside the program: the file system (\<open>Path.is_file\<close>,
  \<open>Path.is_dir\<close>); \<open>urllib.parse.urlparse\<close>, which gives the scheme and the network
  location of a URL or raises \<open>ValueError\<close>; the identity of objects (see \<open>py_eq\<close>); and
  what \<open>re.match\<close> does with a pattern that the syntax modelled above does not cover,
  where it raises \<open>re.error\<close> or tells whether the string matches.
\<close>

record environment =
  is_file :: "string \<Rightarrow> bool"
  is_dir :: "string \<Rightarrow> bool"
  urlparse :: "string \<Rightarrow> py_error + (string \<times> string)"
  same_object :: "pyval \<Rightarrow> pyval \<Rightarrow> bool"
  re_match_other :: "string \<Rightarrow> string \<Rightarrow> py_error + bool"

text \<open>\<open>re.match(pattern, s)\<close> as a truth value, or the exception it raises.\<close>

definition re_match_found :: "environment \<Rightarrow> string \<Rightarrow> string \<Rightarrow> py_error + bool" where
  "re_match_found env pattern s =
     (case re_match_start pattern s False of
        None \<Rightarrow> re_match_other env pattern s
      | Some m \<Rightarrow> Inr (m \<noteq> None))"

definition is_str :: "pyval \<Rightarrow> bool" where
  "is_str v = (case v of PyStr _ \<Rightarrow> True | _ \<Rightarrow> False)"

definition is_int :: "pyval \<Rightarrow> bool" where
  "is_int v = (case v of PyInt _ \<Rightarrow> True | PyBool _ \<Rightarrow> True | _ \<Rightarrow> False)"

definition is_number :: "pyval \<Rightarrow> bool" where
  "is_number v = (case v of PyInt _ \<Rightarrow> True | PyBool _ \<Rightarrow> True | PyFloat _ \<Rightarrow> True | _ \<Rightarrow> False)"

definition is_bool :: "pyval \<Rightarrow> bool" where
  "is_bool v = (case v of PyBool _ \<Rightarrow> True | _ \<Rightarrow> False)"

definition is_list :: "pyval \<Rightarrow> bool" where
  "is_list v = (case v of PyList _ \<Rightarrow> True | _ \<Rightarrow> False)"

definition is_dict :: "pyval \<Rightarrow> bool" where
  "is_dict v = (case v of PyDict _ \<Rightarrow> True | _ \<Rightarrow> False)"

definition str_of :: "pyval \<Rightarrow> string" where
  "str_of v = (case v of PyStr s \<Rightarrow> s | _ \<Rightarrow> [])"

definition value_lt :: "pyval \<Rightarrow> pynum \<Rightarrow> bool" where
  "value_lt v b = (case num_value v of Some x \<Rightarrow> float_lt x (pynum_value b) | None \<Rightarrow> False)"

definition value_gt :: "pyval \<Rightarrow> pynum \<Rightarrow> bool" where
  "value_gt v b = (case num_value v of Some x \<Rightarrow> float_lt (pynum_value b) x | None \<Rightarrow> False)"

definition email_pattern :: string where
  "email_pattern = ''^[a-zA-Z0-9._%+-]+@[a-zA-Z0-9.-]+'' @ bs # ''.[a-zA-Z]{2,}$''"

text \<open>
  \<open>ToolParameter.validate\<close>. The result is the pair \<open>(is_valid, error)\<close> of the source, or
  the exception that a library call inside raised. The checks run in the order of the
  source and the first that fails returns.
\<close>

definition validate ::
  "environment \<Rightarrow> ToolParameter \<Rightarrow> pyval \<Rightarrow> py_error + (bool \<times> validation_error option)" where
  "validate env self v =
     (let n = param_name self; t = param_type self in
      if v = PyNone then
        (if required self then Inr (False, Some (IsRequired n)) else Inr (True, None))
      else if t = STRING \<and> \<not> is_str v then Inr (False, Some (MustBeString n))
      else if t = INTEGER \<and> \<not> is_int v then Inr (False, Some (MustBeInteger n))
      else if t = FLOAT \<and> \<not> is_number v then Inr (False, Some (MustBeNumber n))
      else if t = BOOLEAN \<and> \<not> is_bool v then Inr (False, Some (MustBeBoolean n))
      else if t = LIST \<and> \<not> is_list v then Inr (False, Some (MustBeList n))
      else if t = DICT \<and> \<not> is_dict v then Inr (False, Some (MustBeDictionary n))
      else if (t = INTEGER \<or> t = FLOAT) \<and> is_number v
              \<and> min_value self \<noteq> None \<and> value_lt v (the (min_value self))
        then Inr (False, Some (MustBeAtLeast n (the (min_value self))))
      else if (t = INTEGER \<or> t = FLOAT) \<and> is_number v
              \<and> max_value self \<noteq> None \<and> value_gt v (the (max_value self))
        then Inr (False, Some (MustBeAtMost n (the (max_value self))))
      else if choices self \<noteq> None \<and> choices self \<noteq> Some []
              \<and> \<not> py_in_list (same_object env) v (the (choices self))
        then Inr (False, Some (MustBeOneOf n (the (choices self))))
      else
        (case (if t = STRING \<and> param_pattern self \<noteq> None \<and> param_pattern self \<noteq> Some [] \<and> is_str v
               then re_match_found env (the (param_pattern self)) (str_of v)
               else Inr True) of
           Inl e \<Rightarrow> Inl e
         | Inr pattern_ok \<Rightarrow>
             if \<not> pattern_ok then Inr (False, Some (PatternMismatch n))
             else if t = FILE \<and> is_str v \<and> \<not> is_file env (str_of v)
               then Inr (False, Some (FileNotFound (str_of v)))
             else if t = DIRECTORY \<and> is_str v \<and> \<not> is_dir env (str_of v)
               then Inr (False, Some (DirectoryNotFound (str_of v)))
             else
               (case (if t = URL \<and> is_str v
                      then (case urlparse env (str_of v) of
                              Inl e \<Rightarrow> Inl e
                            | Inr (scheme, netloc) \<Rightarrow> Inr (scheme \<noteq> [] \<and> netloc \<noteq> []))
                      else Inr True) of
                  Inl e \<Rightarrow> Inl e
                | Inr url_ok \<Rightarrow>
                    if \<not> url_ok then Inr (False, Some (InvalidURL (str_of v)))
                    else if t = EMAIL \<and> is_str v then
                      (case re_match_found env email_pattern (str_of v) of
                         Inl e \<Rightarrow> Inl e
                       | Inr found \<Rightarrow>
                           if \<not> found then Inr (False, Some (InvalidEmail (str_of v)))
                           else Inr (True, None))
                    else Inr (True, None))))"

subsection \<open>ToolMetadata, ToolResult, BaseTool\<close>

record ToolMetadata =
  meta_name :: string
  meta_description :: string
  category :: ToolCategory
  version :: string
  author :: string
  meta_keywords :: "string list"
  meta_parameters :: "ToolParameter list"
  requirements :: "string list"
  platforms :: "string list"
  min_python_version :: string
  icon :: "string option"
  documentation_url :: "string option"
  meta_examples :: "string list"

text \<open>
  The \<open>error\<close> text of a result: free text from a tool, or one of the two texts that
  \<open>safe_execute\<close> builds (the validation message as it is, and
  \<open>"Tool execution failed: " + str(e)\<close>).
\<close>

datatype error_text =
    ErrorText string
  | ValidationMessage validation_error
  | ToolExecutionFailed py_error

record ToolResult =
  success :: bool
  message :: string
  data :: "(string \<rightharpoonup> pyval) option"
  error :: "error_text option"
  execution_time :: rat
  timestamp :: rat

text \<open>
  A tool instance: its metadata (fixed by the constructor) and the module of its class
  (\<open>tool.__class__.__module__\<close>, a synthetic name and the identity of the path object it
  was loaded from). The abstract method \<open>execute\<close> is given to \<open>safe_execute\<close> as an
  argument: it takes the keyword arguments and the state of the world outside the
  program, and returns a result or raises, with the new state of the world.
\<close>

type_synonym py_module = "string \<times> nat"

record BaseTool =
  metadata :: ToolMetadata
  class_module :: py_module

type_synonym kwargs = "string \<rightharpoonup> pyval"

definition kwargs_get :: "kwargs \<Rightarrow> string \<Rightarrow> pyval" where
  "kwargs_get kw k = (case kw k of None \<Rightarrow> PyNone | Some v \<Rightarrow> v)"

text \<open>\<open>BaseTool._validate_metadata\<close>: the exception it raises, if any.\<close>

definition validate_metadata :: "ToolMetadata \<Rightarrow> py_error option" where
  "validate_metadata m =
     (if meta_name m = [] then Some (ValueError ''Tool name is required'')
      else if meta_description m = [] then Some (ValueError ''Tool description is required'')
      else if length (map param_name (meta_parameters m))
                \<noteq> card (set (map param_name (meta_parameters m)))
        then Some (ValueError ''Parameter names must be unique'')
      else None)"

text \<open>The loop of \<open>validate_parameters\<close> over the declared parameters.\<close>

fun validate_each ::
  "environment \<Rightarrow> ToolParameter list \<Rightarrow> kwargs \<Rightarrow> py_error + (bool \<times> validation_error option)" where
  "validate_each env [] kw = Inr (True, None)"
| "validate_each env (p # ps) kw =
     (case validate env p (kwargs_get kw (param_name p)) of
        Inl e \<Rightarrow> Inl e
      | Inr r \<Rightarrow> if \<not> fst r then Inr (False, snd r) else validate_each env ps kw)"





subsection \<open>ToolRegistry\<close>

text \<open>
  Both dictionaries of the registry keep their insertion order, which the parser's loops
  over \<open>tools.items()\<close> observe: they are association lists, updated in place
  (\<open>AList.update\<close>) and deleted from (\<open>AList.delete\<close>) as a Python \<open>dict\<close> is.
\<close>

record ToolRegistry =
  tools :: "(string \<times> BaseTool) list"
  categories :: "(ToolCategory \<times> string list) list"

definition empty_registry :: ToolRegistry where
  "empty_registry = \<lparr>tools = [], categories = []\<rparr>"

definition category_names :: "ToolRegistry \<Rightarrow> ToolCategory \<Rightarrow> string list" where
  "category_names self c = (case map_of (categories self) c of None \<Rightarrow> [] | Some ns \<Rightarrow> ns)"

definition register :: "BaseTool \<Rightarrow> ToolRegistry \<Rightarrow> ToolRegistry" where
  "register tool self =
     (let name = meta_name (metadata tool);
          self1 = self\<lparr>tools := AList.update name tool (tools self)\<rparr>;
          c = category (metadata tool);
          self2 = (if map_of (categories self1) c = None
                   then self1\<lparr>categories := AList.update c [] (categories self1)\<rparr>
                   else self1)
      in if name \<notin> set (category_names self2 c)
         then self2\<lparr>categories := AList.update c (category_names self2 c @ [name]) (categories self2)\<rparr>
         else self2)"

definition get_tool :: "ToolRegistry \<Rightarrow> string \<Rightarrow> BaseTool option" where
  "get_tool self name = map_of (tools self) name"

definition get_tools_by_category :: "ToolRegistry \<Rightarrow> ToolCategory \<Rightarrow> BaseTool list" where
  "get_tools_by_category self c =
     List.map_filter (\<lambda>name. map_of (tools self) name) (category_names self c)"

definition list_tools :: "ToolRegistry \<Rightarrow> string list" where
  "list_tools self = map fst (tools self)"

subsection \<open>A sample tool and environment\<close>

text \<open>
  The tool of the plugin template in \<open>create_plugin_template\<close> (one required string
  parameter \<open>message\<close>), an optional integer parameter that declares every kind of
  constraint, and an environment with an empty file system.
\<close>

definition message_parameter :: ToolParameter where
  "message_parameter =
     \<lparr>param_name = ''message'', param_type = STRING, param_description = ''Message to process'',
      required = True, param_default = PyNone, choices = None, min_value = None,
      max_value = None, param_pattern = None\<rparr>"

definition level_parameter :: ToolParameter where
  "level_parameter =
     \<lparr>param_name = ''level'', param_type = INTEGER, param_description = ''Level'',
      required = False, param_default = PyNone, choices = Some [PyInt 1, PyInt 2],
      min_value = Some (NInt 1), max_value = Some (NInt 2), param_pattern = Some ''[0-9]+''\<rparr>"

definition example_metadata :: ToolMetadata where
  "example_metadata =
     \<lparr>meta_name = ''demo_example'', meta_description = ''Example tool from demo plugin'',
      category = CUSTOM, version = ''1.0.0'', author = ''Desktop MCP'',
      meta_keywords = [''demo'', ''example'', ''template''],
      meta_parameters = [message_parameter],
      requirements = [], platforms = [''windows'', ''linux'', ''darwin''],
      min_python_version = ''3.10'', icon = None, documentation_url = None,
      meta_examples = [''Process a simple message'']\<rparr>"

definition example_tool :: BaseTool where
  "example_tool = \<lparr>metadata = example_metadata, class_module = (''demo'', 1)\<rparr>"

definition empty_environment :: environment where
  "empty_environment =
     \<lparr>is_file = (\<lambda>_. False), is_dir = (\<lambda>_. False), urlparse = (\<lambda>_. Inr ([], [])),
      same_object = (\<lambda>_ _. False), re_match_other = (\<lambda>p _. Inl (ReError p))\<rparr>"




definition unprintable_execute :: "kwargs \<Rightarrow> nat \<Rightarrow> (py_error + ToolResult) \<times> nat" where
  "unprintable_execute kw w = (Inl (Unprintable (ValueError ''no text'')), Suc w)"

section \<open>core/plugin\_manager.py\<close>

text \<open>
  What the plugin manager reads from outside the program. A source file, once executed,
  either raises or defines classes; \<open>exec_module\<close> gives the subclasses of \<open>BaseTool\<close>
  among the members of the module in the order of \<open>inspect.getmembers\<close>. A class is
  described by what its constructor does: \<open>BaseTool.__init__\<close> calls \<open>get_metadata\<close>,
  which raises or returns the metadata. A class that the file imported from another
  module keeps that module as its \<open>__module__\<close>. \<open>object_id\<close> is \<open>id(file_path)\<close>, the
  number that makes the synthetic module name. The listings of a directory (\<open>rglob\<close>,
  \<open>glob\<close>, \<open>iterdir\<close>) and the reading of a JSON file return or raise. Paths are strings
  with \<open>/\<close> as the separator, already in the form \<open>str(Path(p))\<close> gives them.
\<close>

record tool_class =
  class_name :: string
  imported_from :: "py_module option"
  get_metadata :: "py_error + ToolMetadata"

record file_system =
  path_exists :: "string \<Rightarrow> bool"
  path_is_file :: "string \<Rightarrow> bool"
  path_is_dir :: "string \<Rightarrow> bool"
  rglob_py :: "string \<Rightarrow> py_error + string list"
  glob_py :: "string \<Rightarrow> py_error + string list"
  iterdir :: "string \<Rightarrow> py_error + string list"
  exec_module :: "string \<Rightarrow> py_error + tool_class list"
  object_id :: "string \<Rightarrow> nat"
  read_json :: "string \<Rightarrow> py_error + pyval"

definition path_name :: "string \<Rightarrow> string" where
  "path_name p = rev (takeWhile (\<lambda>c. c \<noteq> CHR ''/'') (rev p))"

definition path_stem :: "string \<Rightarrow> string" where
  "path_stem p =
     (let n = path_name p;
          suffix_rev = takeWhile (\<lambda>c. c \<noteq> CHR ''.'') (rev n);
          base = rev (drop (Suc (length suffix_rev)) (rev n))
      in if CHR ''.'' \<notin> set n \<or> base = [] \<or> suffix_rev = [] then n else base)"

definition path_join :: "string \<Rightarrow> string \<Rightarrow> string" where
  "path_join d n = d @ ''/'' @ n"

record PluginManager =
  tools_dir :: string
  plugins_dir :: string
  registry :: ToolRegistry
  loaded_modules :: "(string \<times> py_module) list"

definition new_plugin_manager :: "string \<Rightarrow> string \<Rightarrow> PluginManager" where
  "new_plugin_manager td pd =
     \<lparr>tools_dir = td, plugins_dir = pd, registry = empty_registry, loaded_modules = []\<rparr>"

text \<open>The messages appended to the error lists, one constructor per f-string.\<close>

datatype load_error =
    FailedToLoadTools string py_error
  | FailedToLoadPlugin string py_error
  | PluginDiscoveryFailed py_error
  | FailedToReload string py_error

text \<open>
  A handler \<open>except Exception as e\<close> that builds or logs a message with \<open>e\<close> in it and
  goes on: \<open>None\<close> when it absorbs the exception, otherwise the exception that leaves it
  (\<open>e\<close> itself when it is not caught, what \<open>str(e)\<close> raises when it is).
\<close>

definition handler_raises :: "py_error \<Rightarrow> py_error option" where
  "handler_raises e = (if is_exception e then str_raises e else Some e)"

text \<open>\<open>obj()\<close> for a tool class found in module \<open>m\<close>: \<open>BaseTool.__init__\<close>.\<close>

definition construct :: "py_module \<Rightarrow> tool_class \<Rightarrow> py_error + BaseTool" where
  "construct m c =
     (case get_metadata c of
        Inl e \<Rightarrow> Inl e
      | Inr md \<Rightarrow>
          (case validate_metadata md of
             Some e \<Rightarrow> Inl e
           | None \<Rightarrow>
               Inr \<lparr>metadata = md,
                    class_module = (case imported_from c of None \<Rightarrow> m | Some m' \<Rightarrow> m')\<rparr>))"

text \<open>
  The loop of \<open>_load_tools_from_file\<close> over the classes of the module: each class is
  instantiated and registered inside its own \<open>try\<close>, whose handler only logs. \<open>Inl\<close> is
  the exception that leaves the loop; the tools registered before it stay registered.
\<close>

fun load_classes ::
  "py_module \<Rightarrow> tool_class list \<Rightarrow> ToolRegistry \<Rightarrow> (py_error + string list) \<times> ToolRegistry" where
  "load_classes m [] reg = (Inr [], reg)"
| "load_classes m (c # cs) reg =
     (case construct m c of
        Inl e \<Rightarrow>
          (case handler_raises e of
             None \<Rightarrow> load_classes m cs reg
           | Some e' \<Rightarrow> (Inl e', reg))
      | Inr tool_instance \<Rightarrow>
          (case load_classes m cs (register tool_instance reg) of
             (Inl e, reg') \<Rightarrow> (Inl e, reg')
           | (Inr names, reg') \<Rightarrow> (Inr (meta_name (metadata tool_instance) # names), reg')))"

definition file_module :: "file_system \<Rightarrow> string \<Rightarrow> py_module" where
  "file_module fsys file_path =
     (''desktop_mcp_plugin_'' @ path_stem file_path, object_id fsys file_path)"

text \<open>
  \<open>_load_tools_from_file\<close>: whatever is raised inside its \<open>try\<close> is logged and raised
  again by the handler; the table \<open>sys.modules\<close>, which nothing in the program reads
  back, is left out.
\<close>

definition load_tools_from_file ::
  "file_system \<Rightarrow> string \<Rightarrow> PluginManager \<Rightarrow> (py_error + string list) \<times> PluginManager" where
  "load_tools_from_file fsys file_path self =
     (case exec_module fsys file_path of
        Inl e \<Rightarrow> (Inl (log_and_reraise e), self)
      | Inr classes \<Rightarrow>
          (let m = file_module fsys file_path;
               self1 = self\<lparr>loaded_modules := AList.update file_path m (loaded_modules self)\<rparr>
           in case load_classes m classes (registry self1) of
                (Inl e, reg) \<Rightarrow> (Inl (log_and_reraise e), self1\<lparr>registry := reg\<rparr>)
              | (Inr tools_loaded, reg) \<Rightarrow> (Inr tools_loaded, self1\<lparr>registry := reg\<rparr>)))"





record plugin_info =
  plugin_name :: string
  plugin_directory :: string
  tools_count :: nat
  plugin_metadata :: pyval

text \<open>The main file of a plugin directory, if it has one; the listing may raise.\<close>

definition main_file_of :: "file_system \<Rightarrow> string \<Rightarrow> py_error + string option" where
  "main_file_of fsys plugin_dir =
     (if path_exists fsys (path_join plugin_dir ''__init__.py'')
        then Inr (Some (path_join plugin_dir ''__init__.py''))
      else if path_exists fsys (path_join plugin_dir ''main.py'')
        then Inr (Some (path_join plugin_dir ''main.py''))
      else (case glob_py fsys plugin_dir of
              Inl e \<Rightarrow> Inl e
            | Inr [] \<Rightarrow> Inr None
            | Inr (f # _) \<Rightarrow> Inr (Some f)))"

text \<open>The metadata of a plugin: \<open>plugin.json\<close> when it can be read, else \<open>{}\<close>.\<close>

definition read_plugin_metadata :: "file_system \<Rightarrow> string \<Rightarrow> py_error + pyval" where
  "read_plugin_metadata fsys plugin_dir =
     (let metadata_file = path_join plugin_dir ''plugin.json''
      in if path_exists fsys metadata_file then
           (case read_json fsys metadata_file of
              Inr v \<Rightarrow> Inr v
            | Inl e \<Rightarrow> (case handler_raises e of None \<Rightarrow> Inr (PyDict []) | Some e' \<Rightarrow> Inl e'))
         else Inr (PyDict []))"

definition load_plugin_from_directory ::
  "file_system \<Rightarrow> string \<Rightarrow> PluginManager \<Rightarrow> (py_error + plugin_info option) \<times> PluginManager" where
  "load_plugin_from_directory fsys plugin_dir self =
     (case read_plugin_metadata fsys plugin_dir of
        Inl e \<Rightarrow> (Inl e, self)
      | Inr md \<Rightarrow>
          (case main_file_of fsys plugin_dir of
             Inl e \<Rightarrow> (Inl e, self)
           | Inr None \<Rightarrow> (Inr None, self)
           | Inr (Some main_file) \<Rightarrow>
               (case load_tools_from_file fsys main_file self of
                  (Inl e, self') \<Rightarrow> (Inl (log_and_reraise e), self')
                | (Inr ts, self') \<Rightarrow>
                    if ts \<noteq> [] then
                      (Inr (Some \<lparr>plugin_name = path_name plugin_dir,
                                   plugin_directory = plugin_dir,
                                   tools_count = length ts, plugin_metadata = md\<rparr>), self')
                    else (Inr None, self'))))"

record plugins_result =
  plugins_loaded_count :: nat
  plugins :: "plugin_info list"
  plugin_errors :: "load_error list"



record discovery_results =
  tools_loaded :: nat
  plugins_loaded :: nat
  errors :: "load_error list"
  discovered_tools :: "string list"
  discovered_plugins :: "plugin_info list"



text \<open>
  The first step of \<open>reload_plugin\<close>, "remove old tools from registry": the names of the
  tools whose class lives in the old module are collected, then deleted from
  \<open>registry.tools\<close>. Nothing else of the registry is touched.
\<close>

definition remove_module_tools :: "py_module \<Rightarrow> ToolRegistry \<Rightarrow> ToolRegistry" where
  "remove_module_tools old_module reg =
     (let tools_to_remove =
            map fst (filter (\<lambda>item. class_module (snd item) = old_module) (tools reg))
      in reg\<lparr>tools := foldl (\<lambda>ts tool_name. AList.delete tool_name ts) (tools reg) tools_to_remove\<rparr>)"

record reload_result =
  reload_success :: bool
  tools_reloaded :: nat
  reload_error :: "load_error option"

definition reload_failed :: "string \<Rightarrow> py_error \<Rightarrow> py_error + reload_result" where
  "reload_failed plugin_path e =
     (case handler_raises e of
        None \<Rightarrow> Inr \<lparr>reload_success = False, tools_reloaded = 0,
                      reload_error = Some (FailedToReload plugin_path e)\<rparr>
      | Some e' \<Rightarrow> Inl e')"

definition reload_plugin ::
  "file_system \<Rightarrow> string \<Rightarrow> PluginManager \<Rightarrow> (py_error + reload_result) \<times> PluginManager" where
  "reload_plugin fsys plugin_path self =
     (let self1 =
            (case map_of (loaded_modules self) plugin_path of
               None \<Rightarrow> self
             | Some old_module \<Rightarrow>
                 self\<lparr>registry := remove_module_tools old_module (registry self),
                      loaded_modules := AList.delete plugin_path (loaded_modules self)\<rparr>)
      in if path_is_file fsys plugin_path then
           (case load_tools_from_file fsys plugin_path self1 of
              (Inr ts, self2) \<Rightarrow>
                (Inr \<lparr>reload_success = True, tools_reloaded = length ts, reload_error = None\<rparr>,
                 self2)
            | (Inl e, self2) \<Rightarrow> (reload_failed plugin_path e, self2))
         else if path_is_dir fsys plugin_path then
           (case load_plugin_from_directory fsys plugin_path self1 of
              (Inr info, self2) \<Rightarrow>
                (Inr \<lparr>reload_success = True,
                      tools_reloaded = (case info of None \<Rightarrow> 0 | Some i \<Rightarrow> tools_count i),
                      reload_error = None\<rparr>, self2)
            | (Inl e, self2) \<Rightarrow> (reload_failed plugin_path e, self2))
         else (reload_failed plugin_path (FileNotFoundError plugin_path), self1))"

subsection \<open>Sample source units\<close>



definition example_class :: tool_class where
  "example_class =
     \<lparr>class_name = ''DemoTool'', imported_from = None, get_metadata = Inr example_metadata\<rparr>"

definition renamed_class :: tool_class where
  "renamed_class =
     \<lparr>class_name = ''DemoTool'', imported_from = None,
      get_metadata = Inr (example_metadata\<lparr>meta_name := ''demo_renamed''\<rparr>)\<rparr>"

definition moved_tool :: BaseTool where
  "moved_tool =
     \<lparr>metadata = example_metadata\<lparr>category := UTILITIES\<rparr>, class_module = (''demo'', 1)\<rparr>"

text \<open>A file system that holds one source file with the given classes.\<close>

definition one_file_system :: "string \<Rightarrow> string \<Rightarrow> tool_class list \<Rightarrow> file_system" where
  "one_file_system dir file classes =
     \<lparr>path_exists = (\<lambda>p. p = dir \<or> p = file),
      path_is_file = (\<lambda>p. p = file),
      path_is_dir = (\<lambda>p. p = dir),
      rglob_py = (\<lambda>d. if d = dir then Inr [file] else Inr []),
      glob_py = (\<lambda>d. if d = dir then Inr [file] else Inr []),
      iterdir = (\<lambda>d. if d = dir then Inr [file] else Inr []),
      exec_module = (\<lambda>p. if p = file then Inr classes else Inl (FileNotFoundError p)),
      object_id = (\<lambda>p. 1),
      read_json = (\<lambda>p. Inl (FileNotFoundError p))\<rparr>"

text \<open>Two versions of one plugin file: first the template's class, then the same class
  under a new name.\<close>

definition demo_v1 :: file_system where
  "demo_v1 = one_file_system ''plugins'' ''plugins/demo.py'' [example_class]"

definition demo_v2 :: file_system where
  "demo_v2 = one_file_system ''plugins'' ''plugins/demo.py'' [renamed_class]"



subsection \<open>What a discovery pass should report\<close>












text \<open>
  A plugin manager that loaded the first version of the plugin file and then reloaded the
  file in its second version; and a registry in which the template's tool was registered
  and then registered again under another category.
\<close>

definition after_load :: PluginManager where
  "after_load =
     snd (load_tools_from_file demo_v1 ''plugins/demo.py'' (new_plugin_manager ''tools'' ''plugins''))"

definition after_reload :: PluginManager where
  "after_reload = snd (reload_plugin demo_v2 ''plugins/demo.py'' after_load)"

definition registered_twice :: ToolRegistry where
  "registered_twice = register moved_tool (register example_tool empty_registry)"

section \<open>core/command\_parser.py\<close>

text \<open>
  The dictionaries of a parsed command (\<open>Dict[str, Any]\<close>) are association lists in
  insertion order with distinct keys, which is what a Python \<open>dict\<close> is: \<open>d[k] = v\<close> is
  \<open>AList.update k v d\<close>, \<open>k in d\<close> is \<open>map_of d k \<noteq> None\<close>.
\<close>

record ParsedCommand =
  intent :: string
  action :: string
  entities :: "(string \<times> pyval) list"
  confidence :: rat
  tool_name :: "string option"
  parameters :: "(string \<times> pyval) list option"
  alternatives :: "string list option"

record CommandPattern =
  cp_pattern :: string
  cp_intent :: string
  cp_action :: string
  cp_tool_name :: string
  cp_parameter_mapping :: "(string \<times> string) list"
  cp_examples :: "string list"

record CommandParser =
  patterns :: "CommandPattern list"
  command_history :: "ParsedCommand list"
  parser_context :: "(string \<times> pyval) list"

subsection \<open>Command history\<close>

definition get_command_history :: "CommandParser \<Rightarrow> int \<Rightarrow> ParsedCommand list" where
  "get_command_history self limit = py_slice_from (command_history self) (- limit)"

definition remember_command :: "CommandParser \<Rightarrow> ParsedCommand \<Rightarrow> CommandParser" where
  "remember_command self parsed_command =
     (let self1 = self\<lparr>command_history := command_history self @ [parsed_command]\<rparr>
      in if length (command_history self1) > 100
         then self1\<lparr>command_history := py_slice_from (command_history self1) (- 50)\<rparr>
         else self1)"

definition unknown_command :: ParsedCommand where
  "unknown_command =
     \<lparr>intent = ''unknown'', action = ''none'', entities = [], confidence = 0,
      tool_name = None, parameters = None, alternatives = None\<rparr>"

definition fresh_parser :: "CommandPattern list \<Rightarrow> CommandParser" where
  "fresh_parser ps = \<lparr>patterns = ps, command_history = [], parser_context = []\<rparr>"

subsection \<open>The optional libraries\<close>

text \<open>
  The parser uses spaCy and fuzzywuzzy when they can be imported. They are not part of the
  program: the model takes them as parameters. Of a spaCy document the program reads the
  entities (\<open>label_\<close> and \<open>text\<close>, in order) and the lemmas of the tokens tagged
  \<open>VERB\<close>. Of fuzzywuzzy it calls \<open>fuzz.ratio\<close>, \<open>fuzz.partial_ratio\<close> and
  \<open>process.extract\<close>, whose scores are integers; \<open>process_score\<close> is the score
  \<open>process.extract\<close> gives to one choice. \<open>SPACY_AVAILABLE\<close> and \<open>FUZZY_AVAILABLE\<close>
  are \<open>spacy L \<noteq> None\<close> and \<open>fuzzy L \<noteq> None\<close>. These functions of strings are taken
  to return. The last two fields are what \<open>re.search\<close> (with \<open>re.IGNORECASE\<close>) and
  \<open>re.findall\<close> do with a pattern that the modelled syntax does not cover: they raise
  \<open>re.error\<close> or return.
\<close>

record nlp_doc =
  doc_ents :: "(string \<times> string) list"
  doc_verbs :: "string list"

record fuzzy_lib =
  fuzz_ratio :: "string \<Rightarrow> string \<Rightarrow> nat"
  fuzz_partial_ratio :: "string \<Rightarrow> string \<Rightarrow> nat"
  process_score :: "string \<Rightarrow> string \<Rightarrow> nat"

record libs =
  spacy :: "(string \<Rightarrow> nlp_doc) option"
  fuzzy :: "fuzzy_lib option"
  re_search_other :: "string \<Rightarrow> string \<Rightarrow> py_error + re_match option"
  re_findall_other :: "string \<Rightarrow> string \<Rightarrow> py_error + string list"

text \<open>
  \<open>process.extract(query, choices, limit)\<close>: the \<open>limit\<close> best choices with their
  scores, best first; choices of equal score keep their order (\<open>heapq.nlargest\<close>).
\<close>

definition process_extract ::
  "fuzzy_lib \<Rightarrow> string \<Rightarrow> string list \<Rightarrow> nat \<Rightarrow> (string \<times> nat) list" where
  "process_extract lib query options limit =
     take limit
       (sort_key (\<lambda>m. - int (snd m)) (map (\<lambda>opt. (opt, process_score lib query opt)) options))"

text \<open>A score divided by \<open>100.0\<close>. The quotients of integers by 100 compare with the
  literals \<open>0.3 0.6 0.7 0.8 0.9\<close> as the rationals do.\<close>

definition percent :: "nat \<Rightarrow> rat" where
  "percent n = of_nat n / 100"

subsection \<open>Truth value and first item of a Python value\<close>

fun py_truthy :: "pyval \<Rightarrow> bool" where
  "py_truthy PyNone = False"
| "py_truthy (PyBool b) = b"
| "py_truthy (PyInt i) = (i \<noteq> 0)"
| "py_truthy (PyFloat f) = (f \<noteq> Fin 0)"
| "py_truthy (PyStr s) = (s \<noteq> [])"
| "py_truthy (PyList xs) = (xs \<noteq> [])"
| "py_truthy (PyDict d) = (d \<noteq> [])"

text \<open>
  \<open>v[0]\<close>, which the program evaluates only for an entity value it has found to be true.
  Entity values are strings, lists and \<open>None\<close>, so such a value is a string or a list
  with a first item, and the last equation is never reached.
\<close>

fun py_item0 :: "pyval \<Rightarrow> pyval" where
  "py_item0 (PyStr s) = PyStr (take 1 s)"
| "py_item0 (PyList xs) = (case xs of [] \<Rightarrow> PyNone | x # _ \<Rightarrow> x)"
| "py_item0 v = PyNone"

subsection \<open>Patterns\<close>

definition convert_pattern_to_regex :: "string \<Rightarrow> string" where
  "convert_pattern_to_regex pattern =
     (let p1 = py_replace pattern ''{file}'' (''([^'' @ bs # ''s]+)'');
          p2 = py_replace p1 ''{app}'' (''([a-zA-Z]+(?:'' @ bs # ''s+[a-zA-Z]+)*)'');
          p3 = py_replace p2 ''{text}'' ''(.+)'';
          p4 = py_replace p3 ''{number}'' (''('' @ bs # ''d+)'');
          p5 = py_replace p4 ''{path}'' (''([^'' @ bs # ''s]+)'')
      in p5)"

definition builtin_patterns :: "CommandPattern list" where
  "builtin_patterns =
     [\<lparr>cp_pattern = ''open {app}'', cp_intent = ''application'', cp_action = ''launch'',
       cp_tool_name = ''open_application'', cp_parameter_mapping = [(''app'', ''app_name'')],
       cp_examples = [''open blender'', ''open chrome'', ''open vscode'']\<rparr>,
      \<lparr>cp_pattern = ''start {app}'', cp_intent = ''application'', cp_action = ''launch'',
       cp_tool_name = ''open_application'', cp_parameter_mapping = [(''app'', ''app_name'')],
       cp_examples = [''start blender'', ''start browser'']\<rparr>,
      \<lparr>cp_pattern = ''copy {file} to {path}'', cp_intent = ''file'', cp_action = ''copy'',
       cp_tool_name = ''copy_files'',
       cp_parameter_mapping = [(''file'', ''source_path''), (''path'', ''destination_path'')],
       cp_examples = [''copy document.txt to backup folder'']\<rparr>,
      \<lparr>cp_pattern = ''move {file} to {path}'', cp_intent = ''file'', cp_action = ''move'',
       cp_tool_name = ''move_files'',
       cp_parameter_mapping = [(''file'', ''source_path''), (''path'', ''destination_path'')],
       cp_examples = [''move photos to pictures folder'']\<rparr>,
      \<lparr>cp_pattern = ''take screenshot'', cp_intent = ''system'', cp_action = ''screenshot'',
       cp_tool_name = ''take_screenshot'', cp_parameter_mapping = [],
       cp_examples = [''take screenshot'', ''capture screen'']\<rparr>,
      \<lparr>cp_pattern = ''check system'', cp_intent = ''system'', cp_action = ''monitor'',
       cp_tool_name = ''get_system_information'', cp_parameter_mapping = [],
       cp_examples = [''check system status'', ''monitor system'']\<rparr>,
      \<lparr>cp_pattern = ''search for {text}'', cp_intent = ''web'', cp_action = ''search'',
       cp_tool_name = ''search_web'', cp_parameter_mapping = [(''text'', ''query'')],
       cp_examples = [''search for python tutorials'']\<rparr>,
      \<lparr>cp_pattern = ''browse {text}'', cp_intent = ''web'', cp_action = ''navigate'',
       cp_tool_name = ''navigate_to_website'', cp_parameter_mapping = [(''text'', ''url'')],
       cp_examples = [''browse github.com'']\<rparr>]"

definition load_builtin_patterns :: "CommandParser \<Rightarrow> CommandParser" where
  "load_builtin_patterns self = self\<lparr>patterns := patterns self @ builtin_patterns\<rparr>"

text \<open>\<open>CommandParser()\<close>. The registry the parser reads is the module's global
  \<open>tool_registry\<close>; the functions below take it as an argument.\<close>

definition new_command_parser :: CommandParser where
  "new_command_parser =
     load_builtin_patterns \<lparr>patterns = [], command_history = [], parser_context = []\<rparr>"

definition add_custom_pattern :: "CommandParser \<Rightarrow> CommandPattern \<Rightarrow> CommandParser" where
  "add_custom_pattern self pattern = self\<lparr>patterns := patterns self @ [pattern]\<rparr>"

subsection \<open>Entities\<close>

text \<open>\<open>groups[0] if groups else None\<close>; a group that took no part in the match is
  \<open>None\<close>.\<close>

definition first_group :: "re_match \<Rightarrow> pyval" where
  "first_group m =
     (case m_groups m of
        [] \<Rightarrow> PyNone
      | g # _ \<Rightarrow> (case g of None \<Rightarrow> PyNone | Some t \<Rightarrow> PyStr t))"

definition extract_entities_from_match :: "re_match \<Rightarrow> CommandPattern \<Rightarrow> (string \<times> pyval) list" where
  "extract_entities_from_match m pattern =
     (let e1 = (if py_in ''{file}'' (cp_pattern pattern)
                then AList.update ''file'' (first_group m) [] else []);
          e2 = (if py_in ''{app}'' (cp_pattern pattern)
                then AList.update ''app'' (first_group m) e1 else e1);
          e3 = (if py_in ''{text}'' (cp_pattern pattern)
                then AList.update ''text'' (first_group m) e2 else e2)
      in e3)"

definition map_parameters ::
  "(string \<times> pyval) list \<Rightarrow> (string \<times> string) list \<Rightarrow> (string \<times> pyval) list" where
  "map_parameters ents mapping =
     foldl (\<lambda>params item.
              case map_of ents (fst item) of
                None \<Rightarrow> params
              | Some v \<Rightarrow> AList.update (snd item) v params)
       [] mapping"

definition path_patterns :: "string list" where
  "path_patterns =
     [''([a-zA-Z]:['' @ [bs, bs, bs] @ ''/][^'' @ bs # ''s]+)'',
      ''('' @ bs # ''/[^'' @ bs # ''s]+)'',
      ''('' @ bs # ''~'' @ bs # ''/[^'' @ bs # ''s]+)'',
      ''('' @ bs # ''.'' @ bs # ''/[^'' @ bs # ''s]+)'',
      ''('' @ bs # ''.'' @ bs # ''.['' @ [bs, bs, bs] @ ''/][^'' @ bs # ''s]+)'']"

definition url_pattern :: string where
  "url_pattern = ''https?://[^'' @ bs # ''s]+''"

definition command_email_pattern :: string where
  "command_email_pattern =
     bs # ''b[A-Za-z0-9._%+-]+@[A-Za-z0-9.-]+'' @ bs # ''.[A-Z|a-z]{2,}'' @ bs # ''b''"

definition number_pattern :: string where
  "number_pattern = bs # ''b'' @ bs # ''d+'' @ bs # ''b''"

definition quoted_pattern :: string where
  "quoted_pattern = dq # ''([^'' @ [dq] @ '']*)'' @ [dq]"

text \<open>\<open>re.findall\<close> and \<open>re.search\<close> with \<open>re.IGNORECASE\<close>, or the exception they raise.\<close>

definition findall :: "libs \<Rightarrow> string \<Rightarrow> string \<Rightarrow> bool \<Rightarrow> py_error + string list" where
  "findall L p s ic =
     (case re_findall p s ic of None \<Rightarrow> re_findall_other L p s | Some xs \<Rightarrow> Inr xs)"

definition search_ignorecase :: "libs \<Rightarrow> string \<Rightarrow> string \<Rightarrow> py_error + re_match option" where
  "search_ignorecase L p s =
     (case re_search p s True of None \<Rightarrow> re_search_other L p s | Some found \<Rightarrow> Inr found)"

text \<open>The loop over the path patterns: the first one with a match gives \<open>file_paths\<close>.\<close>

fun find_paths :: "libs \<Rightarrow> string list \<Rightarrow> string \<Rightarrow> py_error + string list" where
  "find_paths L [] command = Inr []"
| "find_paths L (p # ps) command =
     (case findall L p command False of
        Inl e \<Rightarrow> Inl e
      | Inr found \<Rightarrow> if found \<noteq> [] then Inr found else find_paths L ps command)"

text \<open>\<open>int(n)\<close> for a run of decimal digits.\<close>

definition int_of_digits :: "string \<Rightarrow> int" where
  "int_of_digits n = int (nat_of_digits n)"

definition put_list :: "string \<Rightarrow> pyval list \<Rightarrow> (string \<times> pyval) list \<Rightarrow> (string \<times> pyval) list" where
  "put_list k xs ents = (if xs \<noteq> [] then AList.update k (PyList xs) ents else ents)"

text \<open>One of the four searches that follow the paths: its matches, if any, under a key.\<close>

definition put_matches ::
  "libs \<Rightarrow> string \<Rightarrow> bool \<Rightarrow> string \<Rightarrow> (string \<Rightarrow> pyval) \<Rightarrow> string
     \<Rightarrow> (string \<times> pyval) list \<Rightarrow> py_error + (string \<times> pyval) list" where
  "put_matches L p ic k conv command ents =
     (case findall L p command ic of
        Inl e \<Rightarrow> Inl e
      | Inr found \<Rightarrow> Inr (put_list k (map conv found) ents))"

definition extract_common_entities :: "libs \<Rightarrow> string \<Rightarrow> py_error + (string \<times> pyval) list" where
  "extract_common_entities L command =
     (case find_paths L path_patterns command of
        Inl e \<Rightarrow> Inl e
      | Inr paths \<Rightarrow>
          (case put_matches L url_pattern False ''urls'' PyStr command
                  (put_list ''file_paths'' (map PyStr paths) []) of
             Inl e \<Rightarrow> Inl e
           | Inr e2 \<Rightarrow>
               (case put_matches L command_email_pattern True ''emails'' PyStr command e2 of
                  Inl e \<Rightarrow> Inl e
                | Inr e3 \<Rightarrow>
                    (case put_matches L number_pattern False ''numbers''
                            (\<lambda>n. PyInt (int_of_digits n)) command e3 of
                       Inl e \<Rightarrow> Inl e
                     | Inr e4 \<Rightarrow>
                         put_matches L quoted_pattern False ''quoted_strings'' PyStr command e4))))"

definition extract_entities_fuzzy ::
  "libs \<Rightarrow> string \<Rightarrow> CommandPattern \<Rightarrow> py_error + (string \<times> pyval) list" where
  "extract_entities_fuzzy L command pattern = extract_common_entities L command"

subsection \<open>Inferring parameters\<close>

text \<open>The body of the loop of \<open>_infer_parameters\<close> for one parameter of the tool.\<close>

definition infer_parameter ::
  "(string \<times> pyval) list \<Rightarrow> (string \<times> pyval) list \<Rightarrow> ToolParameter \<Rightarrow> (string \<times> pyval) list" where
  "infer_parameter ents params param =
     (let n = py_lower (param_name param);
          truthy = (\<lambda>k. case map_of ents k of None \<Rightarrow> False | Some v \<Rightarrow> py_truthy v);
          item0 = (\<lambda>k. case map_of ents k of None \<Rightarrow> PyNone | Some v \<Rightarrow> py_item0 v);
          put = (\<lambda>v. AList.update (param_name param) v params)
      in if py_in ''path'' n \<or> py_in ''file'' n then
           (if truthy ''file_paths'' then put (item0 ''file_paths'')
            else (case map_of ents ''file'' of None \<Rightarrow> params | Some v \<Rightarrow> put v))
         else if py_in ''url'' n then
           (if truthy ''urls'' then put (item0 ''urls'') else params)
         else if py_in ''text'' n \<or> py_in ''message'' n then
           (case map_of ents ''text'' of
              Some v \<Rightarrow> put v
            | None \<Rightarrow> if truthy ''quoted_strings'' then put (item0 ''quoted_strings'') else params)
         else if py_in ''number'' n \<or> py_in ''count'' n then
           (if truthy ''numbers'' then put (item0 ''numbers'') else params)
         else params)"

definition infer_parameters ::
  "ToolRegistry \<Rightarrow> (string \<times> pyval) list \<Rightarrow> string option \<Rightarrow> (string \<times> pyval) list" where
  "infer_parameters reg ents name =
     (case name of
        None \<Rightarrow> []
      | Some n \<Rightarrow>
          if n = [] then []
          else (case get_tool reg n of
                  None \<Rightarrow> []
                | Some tool \<Rightarrow> foldl (infer_parameter ents) [] (meta_parameters (metadata tool))))"

subsection \<open>The pattern stage\<close>

text \<open>
  \<open>_match_patterns\<close>. The state of its loops is the pair \<open>(best_match, best_confidence)\<close>.
  A pattern whose regular expression does not compile makes \<open>re.search\<close> raise.
  (A match object is always true, and so is a \<open>ParsedCommand\<close>.)
\<close>

type_synonym best_match = "ParsedCommand option \<times> rat"

fun match_examples ::
  "libs \<Rightarrow> fuzzy_lib \<Rightarrow> string \<Rightarrow> CommandPattern \<Rightarrow> string list \<Rightarrow> best_match
     \<Rightarrow> py_error + best_match" where
  "match_examples L lib command pattern [] best = Inr best"
| "match_examples L lib command pattern (example # rest) best =
     (let similarity = percent (fuzz_ratio lib command (py_lower example))
      in if similarity > 8/10 \<and> similarity > snd best then
           (case extract_entities_fuzzy L command pattern of
              Inl e \<Rightarrow> Inl e
            | Inr ents \<Rightarrow>
                match_examples L lib command pattern rest
                  (Some \<lparr>intent = cp_intent pattern, action = cp_action pattern, entities = ents,
                          confidence = similarity, tool_name = Some (cp_tool_name pattern),
                          parameters = Some (map_parameters ents (cp_parameter_mapping pattern)),
                          alternatives = None\<rparr>,
                   similarity))
         else match_examples L lib command pattern rest best)"

definition regex_match :: "CommandPattern \<Rightarrow> re_match \<Rightarrow> best_match \<Rightarrow> best_match" where
  "regex_match pattern m best =
     (let ents = extract_entities_from_match m pattern
      in if 9/10 > snd best then
           (Some \<lparr>intent = cp_intent pattern, action = cp_action pattern, entities = ents,
                   confidence = 9/10, tool_name = Some (cp_tool_name pattern),
                   parameters = Some (map_parameters ents (cp_parameter_mapping pattern)),
                   alternatives = None\<rparr>,
            9/10)
         else best)"

fun match_patterns_loop ::
  "libs \<Rightarrow> string \<Rightarrow> CommandPattern list \<Rightarrow> best_match \<Rightarrow> py_error + best_match" where
  "match_patterns_loop L command [] best = Inr best"
| "match_patterns_loop L command (pattern # rest) best =
     (case search_ignorecase L (convert_pattern_to_regex (cp_pattern pattern)) command of
        Inl e \<Rightarrow> Inl e
      | Inr found \<Rightarrow>
          (let best1 = (case found of None \<Rightarrow> best | Some m \<Rightarrow> regex_match pattern m best)
           in case fuzzy L of
                None \<Rightarrow> match_patterns_loop L command rest best1
              | Some lib \<Rightarrow>
                  (case match_examples L lib command pattern (cp_examples pattern) best1 of
                     Inl e \<Rightarrow> Inl e
                   | Inr best2 \<Rightarrow> match_patterns_loop L command rest best2)))"

definition match_patterns :: "libs \<Rightarrow> CommandParser \<Rightarrow> string \<Rightarrow> py_error + ParsedCommand" where
  "match_patterns L self command =
     (case match_patterns_loop L command (patterns self) (None, 0) of
        Inl e \<Rightarrow> Inl e
      | Inr best \<Rightarrow> Inr (case fst best of None \<Rightarrow> unknown_command | Some r \<Rightarrow> r))"

subsection \<open>The NLP stage\<close>

definition intent_mapping :: "(string \<times> string \<times> string) list" where
  "intent_mapping =
     [(''open'', ''application'', ''launch''), (''start'', ''application'', ''launch''),
      (''launch'', ''application'', ''launch''), (''run'', ''application'', ''launch''),
      (''close'', ''application'', ''close''), (''quit'', ''application'', ''close''),
      (''exit'', ''application'', ''close''), (''copy'', ''file'', ''copy''),
      (''move'', ''file'', ''move''), (''delete'', ''file'', ''delete''),
      (''remove'', ''file'', ''delete''), (''create'', ''file'', ''create''),
      (''make'', ''file'', ''create''), (''zip'', ''archive'', ''create''),
      (''compress'', ''archive'', ''create''), (''extract'', ''archive'', ''extract''),
      (''unzip'', ''archive'', ''extract''), (''search'', ''web'', ''search''),
      (''browse'', ''web'', ''navigate''), (''visit'', ''web'', ''navigate''),
      (''download'', ''web'', ''download''), (''take'', ''system'', ''screenshot''),
      (''capture'', ''system'', ''screenshot''), (''monitor'', ''system'', ''monitor''),
      (''check'', ''system'', ''status'')]"

fun intent_of_verbs :: "string list \<Rightarrow> string \<times> string \<times> rat" where
  "intent_of_verbs [] = (''unknown'', ''none'', 0)"
| "intent_of_verbs (verb # verbs) =
     (case map_of intent_mapping verb of
        Some ia \<Rightarrow> (fst ia, snd ia, 8/10)
      | None \<Rightarrow> intent_of_verbs verbs)"

definition determine_intent :: "nlp_doc \<Rightarrow> string \<times> string \<times> rat" where
  "determine_intent doc = intent_of_verbs (doc_verbs doc)"

definition category_mapping :: "(string \<times> ToolCategory) list" where
  "category_mapping =
     [(''file'', FILE_OPERATIONS), (''application'', SYSTEM_CONTROL), (''archive'', UTILITIES),
      (''web'', WEB_AUTOMATION), (''system'', SYSTEM_CONTROL)]"

definition find_best_tool_match ::
  "ToolRegistry \<Rightarrow> string \<Rightarrow> string \<Rightarrow> (string \<times> pyval) list \<Rightarrow> string option" where
  "find_best_tool_match reg i a ents =
     (case map_of category_mapping i of
        None \<Rightarrow> None
      | Some c \<Rightarrow>
          (let ts = get_tools_by_category reg c
           in case find (\<lambda>tool. py_in a (py_lower (meta_name (metadata tool)))
                              \<or> py_in a (py_lower (meta_description (metadata tool)))) ts of
                Some tool \<Rightarrow> Some (meta_name (metadata tool))
              | None \<Rightarrow> (case ts of [] \<Rightarrow> None | t # _ \<Rightarrow> Some (meta_name (metadata t)))))"

definition parse_with_nlp :: "libs \<Rightarrow> ToolRegistry \<Rightarrow> string \<Rightarrow> py_error + ParsedCommand" where
  "parse_with_nlp L reg command =
     (case spacy L of
        None \<Rightarrow> Inr unknown_command
      | Some nlp \<Rightarrow>
          (let doc = nlp command;
               ents0 = foldl (\<lambda>es ent. AList.update (py_lower (fst ent)) (PyStr (snd ent)) es)
                         [] (doc_ents doc)
           in case extract_common_entities L command of
                Inl e \<Rightarrow> Inl e
              | Inr common \<Rightarrow>
                  (let ents = foldl (\<lambda>es kv. AList.update (fst kv) (snd kv) es) ents0 common;
                       iac = determine_intent doc;
                       name = find_best_tool_match reg (fst iac) (fst (snd iac)) ents
                   in Inr \<lparr>intent = fst iac, action = fst (snd iac), entities = ents,
                           confidence = snd (snd iac), tool_name = name,
                           parameters = Some (infer_parameters reg ents name),
                           alternatives = None\<rparr>)))"

subsection \<open>The tool-name stage\<close>

type_synonym best_tool = "BaseTool option \<times> rat"

fun match_keywords :: "string \<Rightarrow> BaseTool \<Rightarrow> string list \<Rightarrow> best_tool \<Rightarrow> best_tool" where
  "match_keywords command tool [] best = best"
| "match_keywords command tool (keyword # rest) best =
     match_keywords command tool rest
       (if py_in (py_lower keyword) command \<and> 6/10 > snd best then (Some tool, 6/10) else best)"

definition match_tool :: "libs \<Rightarrow> string \<Rightarrow> string \<times> BaseTool \<Rightarrow> best_tool \<Rightarrow> best_tool" where
  "match_tool L command item best =
     (let name = fst item; tool = snd item;
          b1 = (if py_in (py_lower name) command \<and> 8/10 > snd best then (Some tool, 8/10) else best);
          b2 = match_keywords command tool (meta_keywords (metadata tool)) b1
      in case fuzzy L of
           None \<Rightarrow> b2
         | Some lib \<Rightarrow>
             (let name_similarity = percent (fuzz_partial_ratio lib command (py_lower name));
                  desc_similarity =
                    percent (fuzz_partial_ratio lib command (py_lower (meta_description (metadata tool))));
                  similarity = max name_similarity desc_similarity
              in if similarity > 7/10 \<and> similarity > snd b2 then (Some tool, similarity) else b2))"

definition match_tools :: "libs \<Rightarrow> string \<Rightarrow> (string \<times> BaseTool) list \<Rightarrow> best_tool" where
  "match_tools L command items = foldl (\<lambda>best item. match_tool L command item best) (None, 0) items"

definition match_tool_names :: "libs \<Rightarrow> ToolRegistry \<Rightarrow> string \<Rightarrow> py_error + ParsedCommand" where
  "match_tool_names L reg command =
     (case match_tools L command (tools reg) of
        (None, c) \<Rightarrow> Inr unknown_command
      | (Some best, c) \<Rightarrow>
          (case extract_common_entities L command of
             Inl e \<Rightarrow> Inl e
           | Inr ents \<Rightarrow>
               Inr \<lparr>intent = ''execute_tool'', action = ''run'', entities = ents, confidence = c,
                    tool_name = Some (meta_name (metadata best)),
                    parameters = Some (infer_parameters reg ents (Some (meta_name (metadata best)))),
                    alternatives = None\<rparr>))"

subsection \<open>Suggestions and \<open>parse_command\<close>\<close>

definition common_commands :: "string list" where
  "common_commands =
     [''open blender'', ''take screenshot'', ''list files'', ''search web'',
      ''copy files'', ''move files'', ''create zip'', ''monitor system'']"

definition suggest_alternatives :: "libs \<Rightarrow> ToolRegistry \<Rightarrow> string \<Rightarrow> string list" where
  "suggest_alternatives L reg command =
     (case fuzzy L of
        None \<Rightarrow> []
      | Some lib \<Rightarrow>
          (let all_options = map fst (tools reg) @ common_commands;
               matches = process_extract lib command all_options 3
           in map fst (filter (\<lambda>m. snd m > 60) matches)))"

definition help_command :: "libs \<Rightarrow> ToolRegistry \<Rightarrow> string \<Rightarrow> ParsedCommand" where
  "help_command L reg command =
     \<lparr>intent = ''unknown'', action = ''help'', entities = [(''original_command'', PyStr command)],
      confidence = 0, tool_name = None, parameters = None,
      alternatives = Some (suggest_alternatives L reg command)\<rparr>"

text \<open>
  The end of \<open>parse_command\<close>, from "Try tool name matching" on. \<open>max\<close> with a key
  returns the first of the largest, here the pattern result unless the tool result is
  strictly better.
\<close>

definition tool_stage ::
  "libs \<Rightarrow> ToolRegistry \<Rightarrow> string \<Rightarrow> ParsedCommand \<Rightarrow> py_error + ParsedCommand" where
  "tool_stage L reg command pattern_result =
     (case match_tool_names L reg command of
        Inl e \<Rightarrow> Inl e
      | Inr tool_result \<Rightarrow>
          if confidence tool_result > confidence pattern_result then Inr tool_result
          else
            (let best_result =
                   (if confidence tool_result > confidence pattern_result then tool_result
                    else pattern_result)
             in if confidence best_result < 3/10 then Inr (help_command L reg command)
                else Inr best_result))"

definition parse_command ::
  "libs \<Rightarrow> CommandParser \<Rightarrow> ToolRegistry \<Rightarrow> string \<Rightarrow> py_error + ParsedCommand" where
  "parse_command L self reg command0 =
     (let command = py_lower (py_strip command0)
      in if command = [] then Inr unknown_command
         else
           (case match_patterns L self command of
              Inl e \<Rightarrow> Inl e
            | Inr pattern_result \<Rightarrow>
                if confidence pattern_result > 7/10 then Inr pattern_result
                else
                  (case spacy L of
                     None \<Rightarrow> tool_stage L reg command pattern_result
                   | Some nlp \<Rightarrow>
                       (case parse_with_nlp L reg command of
                          Inl e \<Rightarrow> Inl e
                        | Inr nlp_result \<Rightarrow>
                            if confidence nlp_result > confidence pattern_result
                            then Inr nlp_result
                            else tool_stage L reg command pattern_result))))"

subsection \<open>Sample libraries and tools\<close>

text \<open>
  A stand-in for fuzzywuzzy that knows equality and containment only. Equal strings score
  100, as in the library. \<open>partial_ratio\<close> gives 100 when one string occurs in the
  other, as in the library. The scorer of \<open>process.extract\<close> gives 90 to a choice that
  contains the query (the library's default scorer scales the partial ratio of strings of
  different lengths by 0.9). Everything else scores 0. And a tool named after one word.
\<close>

definition containment :: "string \<Rightarrow> string \<Rightarrow> nat" where
  "containment a b = (if py_in a b \<or> py_in b a then 100 else 0)"

definition exact_fuzzy :: fuzzy_lib where
  "exact_fuzzy =
     \<lparr>fuzz_ratio = (\<lambda>a b. if a = b then 100 else 0),
      fuzz_partial_ratio = containment,
      process_score = (\<lambda>a b. if a = b then 100 else if py_in a b \<or> py_in b a then 90 else 0)\<rparr>"

definition no_libs :: libs where
  "no_libs =
     \<lparr>spacy = None, fuzzy = None, re_search_other = (\<lambda>p s. Inl (ReError p)),
      re_findall_other = (\<lambda>p s. Inl (ReError p))\<rparr>"

definition fuzzy_only :: libs where
  "fuzzy_only = no_libs\<lparr>fuzzy := Some exact_fuzzy\<rparr>"

definition calculator_tool :: BaseTool where
  "calculator_tool =
     \<lparr>metadata = example_metadata\<lparr>meta_name := ''calculator'',
                                   meta_description := ''Desk calculator''\<rparr>,
      class_module = (''demo'', 1)\<rparr>"

subsection \<open>Values in lower case\<close>

text \<open>
  A string is in lower case when \<open>str.lower\<close> leaves it as it is. The values of entities
  and parameters are strings, numbers, \<open>None\<close> and flat lists of these: such a value is in
  lower case when its strings are, and so is a dictionary when its values are, and a
  parsed command when its entities and its parameters are.
\<close>

definition is_lower :: "string \<Rightarrow> bool" where
  "is_lower s = (py_lower s = s)"

definition atom_lower :: "pyval \<Rightarrow> bool" where
  "atom_lower x =
     (case x of PyStr s \<Rightarrow> is_lower s | PyList xs \<Rightarrow> False | PyDict d \<Rightarrow> False | _ \<Rightarrow> True)"

definition lower_val :: "pyval \<Rightarrow> bool" where
  "lower_val v =
     (case v of PyList xs \<Rightarrow> list_all atom_lower xs | PyDict d \<Rightarrow> False | _ \<Rightarrow> atom_lower v)"

definition lower_dict :: "(string \<times> pyval) list \<Rightarrow> bool" where
  "lower_dict d = list_all (\<lambda>kv. lower_val (snd kv)) d"

definition lower_groups :: "string option list \<Rightarrow> bool" where
  "lower_groups gs = list_all (\<lambda>g. case g of None \<Rightarrow> True | Some t \<Rightarrow> is_lower t) gs"

definition lower_command :: "ParsedCommand \<Rightarrow> bool" where
  "lower_command r =
     (lower_dict (entities r)
      \<and> (case parameters r of None \<Rightarrow> True | Some ps \<Rightarrow> lower_dict ps))"

section \<open>Properties of the command history\<close>

lemma py_slice_from_neg:
  "0 < k \<Longrightarrow> py_slice_from xs (- int k) = drop (length xs - k) xs"
  by (auto simp: py_slice_from_def Let_def max_def nat_diff_distrib)

lemma py_slice_from_zero: "py_slice_from xs 0 = xs"
  by (simp add: py_slice_from_def)

lemma remember_command_history_eq:
  "command_history (remember_command self c) =
     (if length (command_history self) < 100 then command_history self @ [c]
      else drop (length (command_history self) - 49) (command_history self) @ [c])"
proof -
  have "py_slice_from (command_history self @ [c]) (- 50)
          = drop (length (command_history self @ [c]) - 50) (command_history self @ [c])"
    using py_slice_from_neg [of 50 "command_history self @ [c]"] by simp
  then show ?thesis
    by (auto simp: remember_command_def Let_def)
qed

lemma remember_command_suffix:
  "suffix (command_history (foldl remember_command self cs)) (command_history self @ cs)"
proof (induction cs arbitrary: self)
  case Nil
  show ?case by simp
next
  case (Cons c cs)
  have step: "suffix (command_history (remember_command self c)) (command_history self @ [c])"
    by (simp add: remember_command_history_eq suffix_drop)
  have "suffix (command_history (foldl remember_command (remember_command self c) cs))
          (command_history (remember_command self c) @ cs)"
    by (rule Cons.IH)
  also have "suffix (command_history (remember_command self c) @ cs)
          ((command_history self @ [c]) @ cs)"
    using step by (auto simp: suffix_def)
  finally show ?case by simp
qed

text \<open>
  Claim C7. Every call of \<open>remember_command\<close> puts the command at the end of the
  history; the stored history never exceeds 100 entries; the insertion that would bring
  the count to 101 leaves exactly the 50 most recent entries (the last 49 of the old
  history, then the new command); and after any sequence of calls the history is a suffix
  of everything remembered so far, in the order of the calls (oldest first).
\<close>

theorem remember_command_bounded:
  "last (command_history (remember_command self c)) = c
   \<and> length (command_history (remember_command self c)) \<le> 100
   \<and> (length (command_history self) < 100 \<longrightarrow>
        command_history (remember_command self c) = command_history self @ [c])
   \<and> (length (command_history self) = 100 \<longrightarrow>
        command_history (remember_command self c) = drop 51 (command_history self @ [c])
        \<and> length (command_history (remember_command self c)) = 50)
   \<and> suffix (command_history (foldl remember_command self cs)) (command_history self @ cs)"
  by (auto simp: remember_command_history_eq remember_command_suffix)

theorem remember_command_bounded_witness:
  "length (command_history (fresh_parser [])) < 100
   \<and> command_history (remember_command (fresh_parser []) unknown_command) = [unknown_command]
   \<and> length (command_history
         ((fresh_parser [])\<lparr>command_history := replicate 100 unknown_command\<rparr>)) = 100
   \<and> length (command_history (remember_command
         ((fresh_parser [])\<lparr>command_history := replicate 100 unknown_command\<rparr>)
         (unknown_command\<lparr>action := ''help''\<rparr>))) = 50
   \<and> last (command_history (remember_command
         ((fresh_parser [])\<lparr>command_history := replicate 100 unknown_command\<rparr>)
         (unknown_command\<lparr>action := ''help''\<rparr>))) = unknown_command\<lparr>action := ''help''\<rparr>"
  using remember_command_bounded [of "fresh_parser []" unknown_command "[]"]
    remember_command_bounded
      [of "(fresh_parser [])\<lparr>command_history := replicate 100 unknown_command\<rparr>"
          "unknown_command\<lparr>action := ''help''\<rparr>" "[]"]
  by (simp add: fresh_parser_def)

text \<open>
  Claim C10. For every limit of at least 1, \<open>get_command_history\<close> returns the last
  \<open>min limit (length history)\<close> entries of the history, in the history's own
  (oldest-first) order; for limit 0 it returns the whole history, not the empty list.
\<close>

theorem get_command_history_recent:
  "(1 \<le> limit \<longrightarrow>
      get_command_history self limit
        = drop (length (command_history self) - nat limit) (command_history self)
      \<and> length (get_command_history self limit) = min (nat limit) (length (command_history self))
      \<and> suffix (get_command_history self limit) (command_history self))
   \<and> get_command_history self 0 = command_history self"
proof -
  have "get_command_history self limit
          = drop (length (command_history self) - nat limit) (command_history self)"
    if "1 \<le> limit"
  proof -
    from that have "limit = int (nat limit)" and "0 < nat limit" by simp_all
    then show ?thesis
      unfolding get_command_history_def
      using py_slice_from_neg [of "nat limit" "command_history self"] by simp
  qed
  then show ?thesis
    by (auto simp: get_command_history_def py_slice_from_zero suffix_drop)
qed

theorem get_command_history_recent_witness:
  "(1::int) \<le> 2
   \<and> get_command_history
        ((fresh_parser [])\<lparr>command_history :=
           [unknown_command, unknown_command\<lparr>action := ''a''\<rparr>, unknown_command\<lparr>action := ''b''\<rparr>]\<rparr>) 2
       = [unknown_command\<lparr>action := ''a''\<rparr>, unknown_command\<lparr>action := ''b''\<rparr>]"
  using get_command_history_recent
    [of 2 "(fresh_parser [])\<lparr>command_history :=
           [unknown_command, unknown_command\<lparr>action := ''a''\<rparr>, unknown_command\<lparr>action := ''b''\<rparr>]\<rparr>"]
  by simp

section \<open>Properties of parameter validation and safe execution\<close>

text \<open>
  Claim C9. A parameter schema with \<open>required = False\<close> accepts the value \<open>None\<close>
  whatever else it declares (type, bounds, choices, pattern, path kind): \<open>validate\<close>
  returns \<open>(True, None)\<close> before any other check, without reading the environment; so
  does the validation of a keyword that the caller left out.
\<close>

theorem validate_optional_none:
  "\<not> required p \<longrightarrow>
     validate env p PyNone = Inr (True, None)
     \<and> (kw (param_name p) = None \<longrightarrow>
          validate env p (kwargs_get kw (param_name p)) = Inr (True, None))"
  by (simp add: validate_def kwargs_get_def)

theorem validate_optional_none_witness:
  "\<not> required level_parameter
   \<and> choices level_parameter = Some [PyInt 1, PyInt 2]
   \<and> min_value level_parameter = Some (NInt 1)
   \<and> param_pattern level_parameter = Some ''[0-9]+''
   \<and> validate empty_environment level_parameter PyNone = Inr (True, None)
   \<and> (Map.empty :: kwargs) (param_name level_parameter) = None
   \<and> validate empty_environment level_parameter
        (kwargs_get Map.empty (param_name level_parameter)) = Inr (True, None)"
  using validate_optional_none [of level_parameter empty_environment Map.empty]
  by (simp add: level_parameter_def)

lemma validate_each_accepts:
  "validate_each env ps kw = Inr r \<Longrightarrow> fst r \<Longrightarrow> r = (True, None)"
  by (induction ps) (auto split: sum.splits if_splits)














section \<open>Loading tools and the registry\<close>

subsection \<open>What a discovery pass returns\<close>


















subsection \<open>The registry and its category index\<close>

text \<open>
  Claim C3: after any sequence of register and reload operations a name is in some list
  of the category index if and only if it is a key of the primary mapping; reloading a
  file removes its names from the category index too, and a name registered again is only
  in the category list of its current metadata. The code does not keep this. Reloading a
  file whose class changed its name succeeds and leaves the old name in the index
  although it is no longer a key; registering a tool again under another category leaves
  its name in the list of the old category, and the lookup by the old category returns
  the tool of the other category.
\<close>

theorem reload_keeps_stale_category_entry:
  "map fst (tools (registry after_load)) = [''demo_example'']
   \<and> fst (reload_plugin demo_v2 ''plugins/demo.py'' after_load)
       = Inr \<lparr>reload_success = True, tools_reloaded = 1, reload_error = None\<rparr>
   \<and> get_tool (registry after_reload) ''demo_example'' = None
   \<and> map fst (tools (registry after_reload)) = [''demo_renamed'']
   \<and> categories (registry after_reload) = [(CUSTOM, [''demo_example'', ''demo_renamed''])]
   \<and> map fst (tools registered_twice) = [''demo_example'']
   \<and> categories registered_twice
       = [(CUSTOM, [''demo_example'']), (UTILITIES, [''demo_example''])]
   \<and> map (\<lambda>t. category (metadata t)) (get_tools_by_category registered_twice CUSTOM)
       = [UTILITIES]"
  by code_simp

section \<open>Properties of the command parser\<close>

subsection \<open>A command that matches a built-in pattern\<close>

lemma norm_open: "py_lower (py_strip ''open calculator'') = ''open calculator''"
  by code_simp

lemma first_search:
  "re_search (convert_pattern_to_regex ''open {app}'') ''open calculator'' True
     = Some (Some \<lparr>m_start = 0, m_end = 15, m_groups = [Some ''calculator'']\<rparr>)"
  by code_simp

lemma builtin_in_fragment:
  "list_all (\<lambda>p. re_compile (convert_pattern_to_regex (cp_pattern p)) \<noteq> None) builtin_patterns"
  by code_simp

lemma percent_le: "n \<le> 90 \<Longrightarrow> percent n \<le> 9/10"
  by (simp add: percent_def)

lemma match_examples_keep:
  "\<forall>ex\<in>set exs. percent (fuzz_ratio lib c (py_lower ex)) \<le> snd best \<Longrightarrow>
   match_examples L lib c p exs best = Inr best"
  by (induction exs) (auto simp: Let_def)

lemma regex_match_keep: "snd best = 9/10 \<Longrightarrow> regex_match p m best = best"
  by (simp add: regex_match_def Let_def)

lemma search_in_fragment:
  "re_compile p \<noteq> None \<Longrightarrow> \<exists>found. search_ignorecase L p c = Inr found"
  by (auto simp: search_ignorecase_def re_search_def)

lemma match_patterns_loop_keep:
  assumes "snd best = 9/10"
    and "\<forall>p\<in>set ps. re_compile (convert_pattern_to_regex (cp_pattern p)) \<noteq> None"
    and "\<forall>lib. fuzzy L = Some lib \<longrightarrow>
           (\<forall>p\<in>set ps. \<forall>ex\<in>set (cp_examples p). fuzz_ratio lib c (py_lower ex) \<le> 90)"
  shows "match_patterns_loop L c ps best = Inr best"
  using assms
proof (induction ps)
  case Nil
  show ?case by simp
next
  case (Cons p ps)
  from Cons.prems(2) obtain found
    where f: "search_ignorecase L (convert_pattern_to_regex (cp_pattern p)) c = Inr found"
    using search_in_fragment [of "convert_pattern_to_regex (cp_pattern p)" L c] by auto
  have b1: "(case found of None \<Rightarrow> best | Some m \<Rightarrow> regex_match p m best) = best"
    using Cons.prems(1) by (cases found) (simp_all add: regex_match_keep)
  have rest: "match_patterns_loop L c ps best = Inr best"
    using Cons.IH Cons.prems by simp
  show ?case
  proof (cases "fuzzy L")
    case None
    with f b1 rest show ?thesis by simp
  next
    case (Some lib)
    with Cons.prems(3) have "\<forall>ex\<in>set (cp_examples p). fuzz_ratio lib c (py_lower ex) \<le> 90"
      by simp
    then have "\<forall>ex\<in>set (cp_examples p). percent (fuzz_ratio lib c (py_lower ex)) \<le> 9/10"
      using percent_le by blast
    then have "\<forall>ex\<in>set (cp_examples p). percent (fuzz_ratio lib c (py_lower ex)) \<le> snd best"
      unfolding Cons.prems(1) .
    then have "match_examples L lib c p (cp_examples p) best = Inr best"
      by (rule match_examples_keep)
    with Some f b1 rest show ?thesis by simp
  qed
qed


lemma match_patterns_loop_first:
  assumes f: "search_ignorecase L (convert_pattern_to_regex (cp_pattern p)) c = Inr (Some m)"
    and b: "regex_match p m best = b1" and n: "snd b1 = 9/10"
    and fr: "\<forall>q\<in>set ps. re_compile (convert_pattern_to_regex (cp_pattern q)) \<noteq> None"
    and ex: "\<forall>lib. fuzzy L = Some lib \<longrightarrow>
           (\<forall>q\<in>set (p # ps). \<forall>ex\<in>set (cp_examples q). fuzz_ratio lib c (py_lower ex) \<le> 90)"
  shows "match_patterns_loop L c (p # ps) best = Inr b1"
proof -
  from ex have ex': "\<forall>lib. fuzzy L = Some lib \<longrightarrow>
           (\<forall>q\<in>set ps. \<forall>ex\<in>set (cp_examples q). fuzz_ratio lib c (py_lower ex) \<le> 90)"
    by simp
  have rest: "match_patterns_loop L c ps b1 = Inr b1"
    using n fr ex' by (rule match_patterns_loop_keep)
  show ?thesis
  proof (cases "fuzzy L")
    case None
    with f b rest show ?thesis by simp
  next
    case (Some lib)
    with ex have "\<forall>ex\<in>set (cp_examples p). fuzz_ratio lib c (py_lower ex) \<le> 90" by simp
    then have "\<forall>ex\<in>set (cp_examples p). percent (fuzz_ratio lib c (py_lower ex)) \<le> 9/10"
      using percent_le by blast
    then have "\<forall>ex\<in>set (cp_examples p). percent (fuzz_ratio lib c (py_lower ex)) \<le> snd b1"
      unfolding n .
    then have "match_examples L lib c p (cp_examples p) b1 = Inr b1"
      by (rule match_examples_keep)
    with Some f b rest show ?thesis by simp
  qed
qed

lemma open_calculator_match:
  "regex_match (hd builtin_patterns)
     \<lparr>m_start = 0, m_end = 15, m_groups = [Some ''calculator'']\<rparr> (None, 0)
   = (Some \<lparr>intent = ''application'', action = ''launch'',
            entities = [(''app'', PyStr ''calculator'')], confidence = 9/10,
            tool_name = Some ''open_application'',
            parameters = Some [(''app_name'', PyStr ''calculator'')],
            alternatives = None\<rparr>, 9/10)"
  by code_simp

lemma open_pattern: "cp_pattern (hd builtin_patterns) = ''open {app}''"
  by (simp add: builtin_patterns_def)

text \<open>
  Claim C2. For the command \<open>open calculator\<close>, a parser with the built-in patterns
  returns the tool \<open>open_application\<close> with the parameters
  \<open>{"app_name": "calculator"}\<close> and confidence 0.9, whatever the registry holds and
  whether spaCy is there or not; when fuzzywuzzy is there, provided its \<open>ratio\<close> of the
  command to each example of the built-in patterns is at most 90 (none of the examples
  is close to the command).
\<close>

theorem parse_open_calculator:
  "(\<forall>lib. fuzzy L = Some lib \<longrightarrow>
      (\<forall>p\<in>set builtin_patterns. \<forall>ex\<in>set (cp_examples p).
         fuzz_ratio lib ''open calculator'' (py_lower ex) \<le> 90))
   \<longrightarrow> parse_command L new_command_parser reg ''open calculator''
       = Inr \<lparr>intent = ''application'', action = ''launch'',
              entities = [(''app'', PyStr ''calculator'')], confidence = 9/10,
              tool_name = Some ''open_application'',
              parameters = Some [(''app_name'', PyStr ''calculator'')],
              alternatives = None\<rparr>"
proof
  assume ex: "\<forall>lib. fuzzy L = Some lib \<longrightarrow>
      (\<forall>p\<in>set builtin_patterns. \<forall>ex\<in>set (cp_examples p).
         fuzz_ratio lib ''open calculator'' (py_lower ex) \<le> 90)"
  define r where "r = \<lparr>intent = ''application'', action = ''launch'',
              entities = [(''app'', PyStr ''calculator'')], confidence = 9/10,
              tool_name = Some ''open_application'',
              parameters = Some [(''app_name'', PyStr ''calculator'')],
              alternatives = None\<rparr>"
  obtain p1 ps where bp: "builtin_patterns = p1 # ps"
    by (cases builtin_patterns) (simp_all add: builtin_patterns_def)
  have h: "hd builtin_patterns = p1" unfolding bp by simp
  have f: "search_ignorecase L (convert_pattern_to_regex (cp_pattern p1)) ''open calculator''
           = Inr (Some \<lparr>m_start = 0, m_end = 15, m_groups = [Some ''calculator'']\<rparr>)"
    using first_search open_pattern by (simp add: search_ignorecase_def h [symmetric])
  have m: "regex_match p1 \<lparr>m_start = 0, m_end = 15, m_groups = [Some ''calculator'']\<rparr> (None, 0)
             = (Some r, 9/10)"
    using open_calculator_match by (simp add: h [symmetric] r_def)
  have fr: "\<forall>q\<in>set ps. re_compile (convert_pattern_to_regex (cp_pattern q)) \<noteq> None"
    using builtin_in_fragment by (simp add: bp list_all_iff)
  have ex': "\<forall>lib. fuzzy L = Some lib \<longrightarrow>
      (\<forall>p\<in>set (p1 # ps). \<forall>ex\<in>set (cp_examples p).
         fuzz_ratio lib ''open calculator'' (py_lower ex) \<le> 90)"
    using ex by (simp add: bp)
  have n: "snd (Some r, 9/10 :: rat) = 9/10" by simp
  have "match_patterns_loop L ''open calculator'' (p1 # ps) (None, 0) = Inr (Some r, 9/10)"
    using f m n fr ex' by (rule match_patterns_loop_first)
  then have l: "match_patterns_loop L ''open calculator'' builtin_patterns (None, 0)
                  = Inr (Some r, 9/10)"
    by (simp add: bp)
  have mp: "match_patterns L new_command_parser ''open calculator'' = Inr r"
    by (simp add: match_patterns_def new_command_parser_def load_builtin_patterns_def l)
  have c: "confidence r > 7/10" by (simp add: r_def)
  have "parse_command L new_command_parser reg ''open calculator'' = Inr r"
    unfolding parse_command_def norm_open Let_def using mp c by simp
  then show "parse_command L new_command_parser reg ''open calculator''
       = Inr \<lparr>intent = ''application'', action = ''launch'',
              entities = [(''app'', PyStr ''calculator'')], confidence = 9/10,
              tool_name = Some ''open_application'',
              parameters = Some [(''app_name'', PyStr ''calculator'')],
              alternatives = None\<rparr>"
    by (simp add: r_def)
qed

theorem parse_open_calculator_witness:
  "fuzzy no_libs = None
   \<and> parse_command no_libs new_command_parser (register calculator_tool empty_registry)
       ''open calculator''
       = Inr \<lparr>intent = ''application'', action = ''launch'',
              entities = [(''app'', PyStr ''calculator'')], confidence = 9/10,
              tool_name = Some ''open_application'',
              parameters = Some [(''app_name'', PyStr ''calculator'')],
              alternatives = None\<rparr>
   \<and> fuzzy fuzzy_only = Some exact_fuzzy
   \<and> list_all (\<lambda>p. list_all (\<lambda>ex. fuzz_ratio exact_fuzzy ''open calculator'' (py_lower ex) \<le> 90)
                    (cp_examples p)) builtin_patterns
   \<and> parse_command fuzzy_only new_command_parser (register calculator_tool empty_registry)
       ''open calculator''
       = Inr \<lparr>intent = ''application'', action = ''launch'',
              entities = [(''app'', PyStr ''calculator'')], confidence = 9/10,
              tool_name = Some ''open_application'',
              parameters = Some [(''app_name'', PyStr ''calculator'')],
              alternatives = None\<rparr>"
proof -
  have n: "fuzzy no_libs = None" by (simp add: no_libs_def)
  have s: "fuzzy fuzzy_only = Some exact_fuzzy" by (simp add: fuzzy_only_def)
  have h: "list_all (\<lambda>p. list_all (\<lambda>ex. fuzz_ratio exact_fuzzy ''open calculator'' (py_lower ex) \<le> 90)
                    (cp_examples p)) builtin_patterns"
    by code_simp
  then have h': "\<forall>p\<in>set builtin_patterns. \<forall>ex\<in>set (cp_examples p).
                   fuzz_ratio exact_fuzzy ''open calculator'' (py_lower ex) \<le> 90"
    by (simp add: list_all_iff)
  from n parse_open_calculator [of no_libs "register calculator_tool empty_registry"]
  have 1: "parse_command no_libs new_command_parser (register calculator_tool empty_registry)
       ''open calculator''
       = Inr \<lparr>intent = ''application'', action = ''launch'',
              entities = [(''app'', PyStr ''calculator'')], confidence = 9/10,
              tool_name = Some ''open_application'',
              parameters = Some [(''app_name'', PyStr ''calculator'')],
              alternatives = None\<rparr>"
    by simp
  from s h' parse_open_calculator [of fuzzy_only "register calculator_tool empty_registry"]
  have 2: "parse_command fuzzy_only new_command_parser (register calculator_tool empty_registry)
       ''open calculator''
       = Inr \<lparr>intent = ''application'', action = ''launch'',
              entities = [(''app'', PyStr ''calculator'')], confidence = 9/10,
              tool_name = Some ''open_application'',
              parameters = Some [(''app_name'', PyStr ''calculator'')],
              alternatives = None\<rparr>"
    by simp
  from n 1 s h 2 show ?thesis by (intro conjI)
qed


end
